theory Spec2Isabelle
  imports Complex_Main "HOL-Library.Char_ord" "HOL-Library.List_Lexorder"
    "HOL-Library.Product_Lexorder"
begin

section \<open>Python values handled by the loader (mongo\_load.py)\<close>

text \<open>
  The loader reads a table with pandas and turns its rows into MongoDB documents. A table
  cell is a Python object: \<open>None\<close>, a \<open>str\<close>, an \<open>int\<close> or a \<open>float\<close>; a missing
  value of the table is the float NaN. A Python \<open>float\<close> is an IEEE binary64 number: it
  is modelled by the rational it denotes, or one of the two infinities, or NaN (the sign of
  zero is not kept). Strings are ASCII.
\<close>

datatype pyfloat = Finite rat | PosInf | NegInf | NaNf

datatype cell = CNone | CStr string | CInt int | CFloat pyfloat

datatype py_error = ValueError | TypeError | OverflowError | KeyError | IndexError
  | BulkWriteError "nat list"

subsection \<open>Rounding to binary64\<close>

fun bitlen :: "nat \<Rightarrow> nat" where
  "bitlen n = (if n = 0 then 0 else Suc (bitlen (n div 2)))"

declare bitlen.simps [simp del]

text \<open>\<open>scale2 n d e\<close> is the fraction \<open>n / d / 2 ^ e\<close>, as numerator and denominator.\<close>

definition scale2 :: "nat \<Rightarrow> nat \<Rightarrow> int \<Rightarrow> nat \<times> nat" where
  "scale2 n d e = (if 0 \<le> e then (n, d * 2 ^ nat e) else (n * 2 ^ nat (- e), d))"

text \<open>The binary exponent \<open>\<lfloor>log\<^sub>2 (n / d)\<rfloor>\<close> of a positive fraction.\<close>

definition ilog2 :: "nat \<Rightarrow> nat \<Rightarrow> int" where
  "ilog2 n d =
     (let k = int (bitlen n) - int (bitlen d); (a, b) = scale2 n d k
      in if b \<le> a then k else k - 1)"

definition round_half_even :: "nat \<Rightarrow> nat \<Rightarrow> nat" where
  "round_half_even a b =
     (let q = a div b; r = a mod b
      in if 2 * r < b then q
         else if b < 2 * r then q + 1
         else if even q then q else q + 1)"

definition pow2 :: "int \<Rightarrow> rat" where
  "pow2 e = (if 0 \<le> e then 2 ^ nat e else 1 / 2 ^ nat (- e))"

text \<open>
  The magnitude of the binary64 number nearest to \<open>n / d\<close> (ties to even, 53 significant
  bits, smallest exponent \<open>-1074\<close>), or \<open>None\<close> when the rounded magnitude reaches
  \<open>2 ^ 1024\<close>.
\<close>

definition binary64_mag :: "nat \<Rightarrow> nat \<Rightarrow> rat option" where
  "binary64_mag n d =
     (if n = 0 then Some 0
      else let e = max (ilog2 n d - 52) (- 1074);
               (a, b) = scale2 n d e;
               v = of_nat (round_half_even a b) * pow2 e
           in if 2 ^ 1024 \<le> v then None else Some v)"

subsection \<open>\<open>float(x)\<close> and \<open>int(f)\<close>\<close>

definition is_digit :: "char \<Rightarrow> bool" where
  "is_digit c = (CHR ''0'' \<le> c \<and> c \<le> CHR ''9'')"

definition digit_val :: "char \<Rightarrow> nat" where
  "digit_val c = of_char c - 48"

definition nat_of_digits :: "string \<Rightarrow> nat" where
  "nat_of_digits ds = foldl (\<lambda>a c. 10 * a + digit_val c) 0 ds"

definition ascii_lower :: "char \<Rightarrow> char" where
  "ascii_lower c =
     (case map_of (zip ''ABCDEFGHIJKLMNOPQRSTUVWXYZ'' ''abcdefghijklmnopqrstuvwxyz'') c of
        Some l \<Rightarrow> l
      | None \<Rightarrow> c)"

text \<open>The whitespace \<open>float\<close> skips at both ends of a string: space, and tab to carriage return.\<close>

definition is_float_space :: "char \<Rightarrow> bool" where
  "is_float_space c = (c = CHR '' '' \<or> (CHR 0x09 \<le> c \<and> c \<le> CHR 0x0D))"

definition float_strip :: "string \<Rightarrow> string" where
  "float_strip s = rev (dropWhile is_float_space (rev (dropWhile is_float_space s)))"

text \<open>
  An underscore is accepted only between two digits; the scan returns the text without
  underscores. \<open>prev\<close> is the character before, NUL at the start.
\<close>

fun drop_underscores :: "char \<Rightarrow> string \<Rightarrow> string option" where
  "drop_underscores prev [] = (if prev = CHR ''_'' then None else Some [])"
| "drop_underscores prev (c # cs) =
     (if c = CHR ''_'' then (if is_digit prev then drop_underscores c cs else None)
      else if prev = CHR ''_'' \<and> \<not> is_digit c then None
      else map_option ((#) c) (drop_underscores c cs))"

definition split_sign :: "string \<Rightarrow> bool \<times> string" where
  "split_sign s =
     (case s of
        c # r \<Rightarrow> if c = CHR ''-'' then (True, r) else if c = CHR ''+'' then (False, r) else (False, s)
      | [] \<Rightarrow> (False, s))"

definition span_digits :: "string \<Rightarrow> string \<times> string" where
  "span_digits s = (takeWhile is_digit s, dropWhile is_digit s)"

text \<open>
  The exponent part of a literal: empty, or \<open>e\<close>/\<open>E\<close>, an optional sign and at least one
  digit, up to the end of the text.
\<close>

definition parse_exponent :: "string \<Rightarrow> int option" where
  "parse_exponent s =
     (case s of
        [] \<Rightarrow> Some 0
      | c # r \<Rightarrow>
          if c = CHR ''e'' \<or> c = CHR ''E'' then
            (let (neg, r1) = split_sign r; (ds, r2) = span_digits r1
             in if ds = [] \<or> r2 \<noteq> [] then None
                else Some (if neg then - int (nat_of_digits ds) else int (nat_of_digits ds)))
          else None)"

text \<open>
  The decimal literal \<open>digits [. digits] [exponent]\<close> or \<open>. digits [exponent]\<close>, as the
  fraction it denotes.
\<close>

definition parse_decimal :: "string \<Rightarrow> (nat \<times> nat) option" where
  "parse_decimal s =
     (let (ip, r1) = span_digits s;
          (fp, r2) = (case r1 of c # r \<Rightarrow> if c = CHR ''.'' then span_digits r else ([], r1)
                      | [] \<Rightarrow> ([], r1))
      in if ip = [] \<and> fp = [] then None
         else case parse_exponent r2 of
                None \<Rightarrow> None
              | Some x \<Rightarrow>
                  (let m = nat_of_digits (ip @ fp); e = x - int (length fp)
                   in Some (if 0 \<le> e then (m * 10 ^ nat e, 1) else (m, 10 ^ nat (- e)))))"

definition signed_float :: "bool \<Rightarrow> rat option \<Rightarrow> pyfloat" where
  "signed_float neg v =
     (case v of None \<Rightarrow> (if neg then NegInf else PosInf)
      | Some q \<Rightarrow> Finite (if neg then - q else q))"

text \<open>\<open>float(s)\<close> for a string: \<open>ValueError\<close> unless the stripped text is a literal.\<close>

definition float_of_string :: "string \<Rightarrow> py_error + pyfloat" where
  "float_of_string s =
     (case drop_underscores (CHR 0x00) (float_strip s) of
        None \<Rightarrow> Inl ValueError
      | Some t \<Rightarrow>
          (let (neg, body) = split_sign t; low = map ascii_lower body
           in if low = ''inf'' \<or> low = ''infinity'' then Inr (if neg then NegInf else PosInf)
              else if low = ''nan'' then Inr NaNf
              else case parse_decimal body of
                     None \<Rightarrow> Inl ValueError
                   | Some (n, d) \<Rightarrow> Inr (signed_float neg (binary64_mag n d))))"

text \<open>\<open>float(i)\<close> for an integer: \<open>OverflowError\<close> when the integer is too large.\<close>

definition float_of_int :: "int \<Rightarrow> py_error + pyfloat" where
  "float_of_int i =
     (case binary64_mag (nat \<bar>i\<bar>) 1 of
        None \<Rightarrow> Inl OverflowError
      | Some q \<Rightarrow> Inr (Finite (if i < 0 then - q else q)))"

definition py_float :: "cell \<Rightarrow> py_error + pyfloat" where
  "py_float x =
     (case x of
        CNone \<Rightarrow> Inl TypeError
      | CStr s \<Rightarrow> float_of_string s
      | CInt i \<Rightarrow> float_of_int i
      | CFloat f \<Rightarrow> Inr f)"

text \<open>Truncation toward zero.\<close>

definition trunc :: "rat \<Rightarrow> int" where
  "trunc q = (if q < 0 then - \<lfloor>- q\<rfloor> else \<lfloor>q\<rfloor>)"

text \<open>\<open>int(f)\<close> for a float: the infinities and NaN have no integer value.\<close>

definition py_int_of_float :: "pyfloat \<Rightarrow> py_error + int" where
  "py_int_of_float f =
     (case f of
        Finite q \<Rightarrow> Inr (trunc q)
      | PosInf \<Rightarrow> Inl OverflowError
      | NegInf \<Rightarrow> Inl OverflowError
      | NaNf \<Rightarrow> Inl ValueError)"

section \<open>Utilities\<close>

text \<open>
  \<open>safe_float\<close> and \<open>safe_int\<close> wrap the conversion in \<open>try ... except Exception: return None\<close>;
  the result \<open>None\<close> is Python's \<open>None\<close>.
\<close>

definition safe_float :: "cell \<Rightarrow> pyfloat option" where
  "safe_float x = (case py_float x of Inl e \<Rightarrow> None | Inr f \<Rightarrow> Some f)"

definition safe_int :: "cell \<Rightarrow> int option" where
  "safe_int x =
     (case py_float x of
        Inl e \<Rightarrow> None
      | Inr f \<Rightarrow> (case py_int_of_float f of Inl e \<Rightarrow> None | Inr i \<Rightarrow> Some i))"


subsection \<open>\<open>str(x)\<close>, \<open>pd.isna\<close> and \<open>str.strip\<close>\<close>

function digits_of_nat :: "nat \<Rightarrow> string" where
  "digits_of_nat n =
     (if n < 10 then [char_of (48 + n)] else digits_of_nat (n div 10) @ [char_of (48 + n mod 10)])"
  by pat_completeness auto
termination
  by (relation "measure (\<lambda>n. n)") auto

declare digits_of_nat.simps [simp del]

definition str_of_int :: "int \<Rightarrow> string" where
  "str_of_int i = (if i < 0 then CHR ''-'' # digits_of_nat (nat (- i)) else digits_of_nat (nat i))"

text \<open>
  A point in time, as \<open>datetime\<close> holds it. The functions of the standard library and of
  pandas that the loader calls and that are not modelled here are parameters: \<open>strptime\<close>
  is \<open>datetime.strptime(txt, fmt)\<close>, with \<open>None\<close> when it raises; \<open>to_datetime\<close> is
  \<open>pd.to_datetime(txt, dayfirst=True, errors="coerce")\<close>, which answers a timestamp, the
  not-a-time value \<open>NaT\<close> for a text it cannot parse (that is what \<open>errors="coerce"\<close> asks
  for), or raises; \<open>float_repr\<close> is the text of a finite float.
\<close>

record datetime =
  dt_year :: nat
  dt_month :: nat
  dt_day :: nat
  dt_hour :: nat
  dt_minute :: nat
  dt_second :: nat

datatype pd_result = PdRaise | PdNaT | PdTimestamp datetime

record pylib =
  strptime :: "string \<Rightarrow> string \<Rightarrow> datetime option"
  to_datetime :: "string \<Rightarrow> pd_result"
  float_repr :: "rat \<Rightarrow> string"

definition py_str :: "pylib \<Rightarrow> cell \<Rightarrow> string" where
  "py_str L x =
     (case x of
        CNone \<Rightarrow> ''None''
      | CStr s \<Rightarrow> s
      | CInt i \<Rightarrow> str_of_int i
      | CFloat f \<Rightarrow>
          (case f of
             Finite q \<Rightarrow> float_repr L q
           | PosInf \<Rightarrow> ''inf''
           | NegInf \<Rightarrow> ''-inf''
           | NaNf \<Rightarrow> ''nan''))"

definition isna :: "cell \<Rightarrow> bool" where
  "isna x = (x = CNone \<or> x = CFloat NaNf)"

text \<open>The ASCII characters \<open>str.strip()\<close> removes.\<close>

definition is_space :: "char \<Rightarrow> bool" where
  "is_space c =
     (c = CHR '' '' \<or> (CHR 0x09 \<le> c \<and> c \<le> CHR 0x0D) \<or> (CHR 0x1C \<le> c \<and> c \<le> CHR 0x1F))"

definition strip :: "string \<Rightarrow> string" where
  "strip s = rev (dropWhile is_space (rev (dropWhile is_space s)))"

subsection \<open>\<open>parse_invoice_date\<close>, \<open>is_cancellation\<close>\<close>

text \<open>
  What \<open>parse_invoice_date\<close> returns: \<open>None\<close>, a \<open>datetime\<close>, or pandas' \<open>NaT\<close>
  (\<open>NaT.to_pydatetime()\<close> is \<open>NaT\<close> again).
\<close>

datatype date_val = DNone | DTime datetime | DNaT

definition formats :: "string list" where
  "formats = [''%d-%m-%Y %H:%M'', ''%d/%m/%Y %H:%M'', ''%Y-%m-%d %H:%M:%S'']"

text \<open>The \<open>for fmt in (...)\<close> loop: the first format that parses returns.\<close>

fun try_formats :: "pylib \<Rightarrow> string \<Rightarrow> string list \<Rightarrow> datetime option" where
  "try_formats L txt [] = None"
| "try_formats L txt (fmt # fmts) =
     (case strptime L txt fmt of Some d \<Rightarrow> Some d | None \<Rightarrow> try_formats L txt fmts)"

definition to_pydatetime :: "pd_result \<Rightarrow> date_val" where
  "to_pydatetime r = (case r of PdRaise \<Rightarrow> DNone | PdNaT \<Rightarrow> DNaT | PdTimestamp d \<Rightarrow> DTime d)"

definition parse_invoice_date :: "pylib \<Rightarrow> cell \<Rightarrow> date_val" where
  "parse_invoice_date L s =
     (if isna s then DNone
      else let txt = strip (py_str L s)
           in case try_formats L txt formats of
                Some d \<Rightarrow> DTime d
              | None \<Rightarrow> to_pydatetime (to_datetime L txt))"

definition is_cancellation :: "string \<Rightarrow> bool" where
  "is_cancellation invoice_no = (case invoice_no of [] \<Rightarrow> False | c # cs \<Rightarrow> c = CHR ''C'')"

section \<open>Frames and documents\<close>

text \<open>
  A pandas frame: its column names and its rows. A row gives a cell for every name; only
  the names among the columns are read. \<open>row_get\<close> is \<open>r.get(c)\<close> (\<open>None\<close> for a column
  the frame does not have) and \<open>row_item\<close> is \<open>r[c]\<close> (\<open>KeyError\<close>).
\<close>

type_synonym row = "string \<Rightarrow> cell"

record frame =
  columns :: "string list"
  rows :: "row list"

definition row_get :: "frame \<Rightarrow> row \<Rightarrow> string \<Rightarrow> cell" where
  "row_get df r c = (if c \<in> set (columns df) then r c else CNone)"

definition row_item :: "frame \<Rightarrow> row \<Rightarrow> string \<Rightarrow> py_error + cell" where
  "row_item df r c = (if c \<in> set (columns df) then Inr (r c) else Inl KeyError)"

text \<open>\<open>df.dropna(subset=cs)\<close>: the rows with no missing value in the columns \<open>cs\<close>.\<close>

definition dropna :: "string list \<Rightarrow> frame \<Rightarrow> frame" where
  "dropna cs df = df\<lparr>rows := filter (\<lambda>r. \<forall>c \<in> set cs. \<not> isna (r c)) (rows df)\<rparr>"

text \<open>
  \<open>df.groupby("InvoiceNo")\<close>: rows with a missing key are left out, equal keys form one
  group (an integer equals the float of the same value), the rows of a group keep their
  order, and the groups come in the order of their keys, numbers before strings. Nothing
  proved below depends on the order of the groups.
\<close>

type_synonym gkey = "nat \<times> rat \<times> string"

definition group_key :: "cell \<Rightarrow> gkey option" where
  "group_key x =
     (case x of
        CNone \<Rightarrow> None
      | CStr s \<Rightarrow> Some (3, 0, s)
      | CInt i \<Rightarrow> Some (1, of_int i, [])
      | CFloat f \<Rightarrow>
          (case f of
             Finite q \<Rightarrow> Some (1, q, [])
           | PosInf \<Rightarrow> Some (2, 0, [])
           | NegInf \<Rightarrow> Some (0, 0, [])
           | NaNf \<Rightarrow> None))"

definition group_keys :: "frame \<Rightarrow> gkey list" where
  "group_keys df = sort (remdups (List.map_filter (\<lambda>r. group_key (r ''InvoiceNo'')) (rows df)))"

definition groupby :: "frame \<Rightarrow> py_error + frame list" where
  "groupby df =
     (if ''InvoiceNo'' \<notin> set (columns df) then Inl KeyError
      else Inr (map (\<lambda>k. df\<lparr>rows := filter (\<lambda>r. group_key (r ''InvoiceNo'') = Some k) (rows df)\<rparr>)
                 (group_keys df)))"

text \<open>A list comprehension whose body may raise: the first error ends it.\<close>

fun collect :: "(py_error + 'a) list \<Rightarrow> py_error + 'a list" where
  "collect [] = Inr []"
| "collect (x # xs) =
     (case x of
        Inl e \<Rightarrow> Inl e
      | Inr v \<Rightarrow> (case collect xs of Inl e \<Rightarrow> Inl e | Inr vs \<Rightarrow> Inr (v # vs)))"

record cc_item =
  stock_code :: string
  quantity :: "int option"
  unit_price :: "pyfloat option"

record line_item = cc_item +
  description :: "string option"

record txn_doc =
  txn_id :: string
  txn_invoice_date :: date_val
  txn_customer_id :: "int option"
  txn_customer_country :: "string option"
  txn_items :: "line_item list"
  txn_is_cancellation :: bool

record invoice_sub =
  invoice_no :: string
  inv_invoice_date :: date_val
  inv_items :: "cc_item list"
  inv_is_cancellation :: bool

text \<open>
  \<open>UpdateOne({"_id": cust_id}, {"$setOnInsert": {"country": country},
  "$push": {"invoices": invoice_doc}}, upsert=True)\<close>.
\<close>

record upsert_op =
  filter_id :: "int option"
  set_on_insert_country :: "string option"
  push_invoice :: invoice_sub

subsection \<open>\<open>build_txn_doc\<close>\<close>

definition txn_item :: "pylib \<Rightarrow> frame \<Rightarrow> row \<Rightarrow> line_item" where
  "txn_item L g r =
     \<lparr>stock_code = py_str L (r ''StockCode''),
      quantity = safe_int (row_get g r ''Quantity''),
      unit_price = safe_float (row_get g r ''UnitPrice''),
      description = (if isna (row_get g r ''Description'') then None
                     else Some (py_str L (row_get g r ''Description'')))\<rparr>"

definition country_of :: "pylib \<Rightarrow> frame \<Rightarrow> row \<Rightarrow> string option" where
  "country_of L g first =
     (if ''Country'' \<in> set (columns g) then Some (py_str L (row_get g first ''Country'')) else None)"

text \<open>
  \<open>group.iloc[0]\<close> raises \<open>IndexError\<close> on a group without rows; \<open>first["InvoiceNo"]\<close> and
  \<open>r["StockCode"]\<close> raise \<open>KeyError\<close> when the column is absent.
\<close>

definition build_txn_doc :: "pylib \<Rightarrow> frame \<Rightarrow> py_error + txn_doc" where
  "build_txn_doc L g =
     (case rows g of
        [] \<Rightarrow> Inl IndexError
      | first # rest \<Rightarrow>
          (case row_item g first ''InvoiceNo'' of
             Inl e \<Rightarrow> Inl e
           | Inr no \<Rightarrow>
               if ''StockCode'' \<notin> set (columns g) then Inl KeyError
               else Inr \<lparr>txn_id = py_str L no,
                         txn_invoice_date = parse_invoice_date L (row_get g first ''InvoiceDate''),
                         txn_customer_id = safe_int (row_get g first ''CustomerID''),
                         txn_customer_country = country_of L g first,
                         txn_items = map (txn_item L g) (rows g),
                         txn_is_cancellation = is_cancellation (py_str L no)\<rparr>))"

subsection \<open>\<open>customer_upsert_ops\<close>\<close>

definition cust_item :: "pylib \<Rightarrow> frame \<Rightarrow> row \<Rightarrow> cc_item" where
  "cust_item L g r =
     \<lparr>stock_code = py_str L (r ''StockCode''),
      quantity = safe_int (row_get g r ''Quantity''),
      unit_price = safe_float (row_get g r ''UnitPrice'')\<rparr>"

text \<open>The body of the loop over the groups; the group's key is the invoice number of its rows.\<close>

definition customer_op :: "pylib \<Rightarrow> frame \<Rightarrow> py_error + upsert_op" where
  "customer_op L g =
     (case rows g of
        [] \<Rightarrow> Inl IndexError
      | first # rest \<Rightarrow>
          if ''StockCode'' \<notin> set (columns g) then Inl KeyError
          else Inr \<lparr>filter_id = safe_int (row_get g first ''CustomerID''),
                    set_on_insert_country = country_of L g first,
                    push_invoice =
                      \<lparr>invoice_no = py_str L (first ''InvoiceNo''),
                       inv_invoice_date = parse_invoice_date L (row_get g first ''InvoiceDate''),
                       inv_items = map (cust_item L g) (rows g),
                       inv_is_cancellation = is_cancellation (py_str L (first ''InvoiceNo''))\<rparr>\<rparr>)"

definition customer_upsert_ops :: "pylib \<Rightarrow> frame \<Rightarrow> py_error + upsert_op list" where
  "customer_upsert_ops L df =
     (case groupby df of Inl e \<Rightarrow> Inl e | Inr gs \<Rightarrow> collect (map (customer_op L) gs))"

section \<open>The two collections\<close>

text \<open>
  \<open>invoices_txn\<close> maps an invoice number to its document, \<open>customers_centric\<close> a customer
  id to the customer's document; \<open>_id\<close> is unique in both. In a customer document the
  field \<open>invoices\<close> may be absent (\<open>None\<close>).
\<close>

record cust_doc =
  country :: "string option"
  invoices :: "invoice_sub list option"

record db =
  invoices_txn :: "string \<rightharpoonup> txn_doc"
  customers_centric :: "int option \<rightharpoonup> cust_doc"

text \<open>
  \<open>insert_many(docs, ordered=False)\<close>: a document whose \<open>_id\<close> is taken fails with the
  duplicate-key code 11000 and the others are still inserted. \<open>rej\<close> gives the code of any
  other failure the server answers for a document. The result is the collection and the
  codes of \<open>writeErrors\<close>; \<open>BulkWriteError\<close> is raised when there is one.
\<close>

fun insert_many :: "(txn_doc \<Rightarrow> nat option) \<Rightarrow> (string \<rightharpoonup> txn_doc) \<Rightarrow> txn_doc list
    \<Rightarrow> (string \<rightharpoonup> txn_doc) \<times> nat list" where
  "insert_many rej c [] = (c, [])"
| "insert_many rej c (d # ds) =
     (case (if c (txn_id d) \<noteq> None then Some 11000 else rej d) of
        Some code \<Rightarrow> (let (c', es) = insert_many rej c ds in (c', code # es))
      | None \<Rightarrow> insert_many rej (c(txn_id d \<mapsto> d)) ds)"

text \<open>
  One upsert: \<open>$push\<close> appends to \<open>invoices\<close> and creates it when absent; \<open>$setOnInsert\<close>
  only acts when the document is created.
\<close>

definition push :: "invoice_sub \<Rightarrow> cust_doc \<Rightarrow> cust_doc" where
  "push sub d =
     d\<lparr>invoices := Some (case invoices d of None \<Rightarrow> [sub] | Some xs \<Rightarrow> xs @ [sub])\<rparr>"

definition update_one_upsert :: "(int option \<rightharpoonup> cust_doc) \<Rightarrow> upsert_op \<Rightarrow> (int option \<rightharpoonup> cust_doc)" where
  "update_one_upsert c op =
     (case c (filter_id op) of
        Some d \<Rightarrow> c(filter_id op \<mapsto> push (push_invoice op) d)
      | None \<Rightarrow> c(filter_id op \<mapsto>
                  \<lparr>country = set_on_insert_country op, invoices = Some [push_invoice op]\<rparr>))"

fun bulk_write :: "(upsert_op \<Rightarrow> nat option) \<Rightarrow> (int option \<rightharpoonup> cust_doc) \<Rightarrow> upsert_op list
    \<Rightarrow> (int option \<rightharpoonup> cust_doc) \<times> nat list" where
  "bulk_write rej c [] = (c, [])"
| "bulk_write rej c (op # ops) =
     (case rej op of
        Some code \<Rightarrow> (let (c', es) = bulk_write rej c ops in (c', code # es))
      | None \<Rightarrow> bulk_write rej (update_one_upsert c op) ops)"


section \<open>Loader\<close>

definition needed :: "string list" where
  "needed = [''InvoiceNo'', ''StockCode'', ''Quantity'']"

text \<open>The cleaning at the head of \<open>process_frame\<close>; \<open>None\<close> is the early \<open>return\<close>.\<close>

definition clean :: "frame \<Rightarrow> frame option" where
  "clean df =
     (let df1 = dropna (filter (\<lambda>c. c \<in> set (columns df)) needed) df
      in if ''CustomerID'' \<in> set (columns df1) then Some (dropna [''CustomerID''] df1) else None)"

text \<open>\<open>if not all(e.get("code") == 11000 for e in errs): raise\<close>\<close>

definition reraise :: "nat list \<Rightarrow> py_error option" where
  "reraise errs = (if list_all (\<lambda>e. e = 11000) errs then None else Some (BulkWriteError errs))"

text \<open>
  \<open>process_frame\<close> returns the collections as it leaves them and the exception it raises,
  if any. \<open>rt\<close> and \<open>rc\<close> are the failures, other than duplicate keys, that the server
  answers for the two bulk writes.
\<close>

definition process_frame :: "pylib \<Rightarrow> (txn_doc \<Rightarrow> nat option) \<Rightarrow> (upsert_op \<Rightarrow> nat option)
    \<Rightarrow> db \<Rightarrow> frame \<Rightarrow> db \<times> py_error option" where
  "process_frame L rt rc s df =
     (case clean df of
        None \<Rightarrow> (s, None)
      | Some df2 \<Rightarrow>
          (case groupby df2 of
             Inl e \<Rightarrow> (s, Some e)
           | Inr gs \<Rightarrow>
               (case collect (map (build_txn_doc L) gs) of
                  Inl e \<Rightarrow> (s, Some e)
                | Inr txn_docs \<Rightarrow>
                    (case customer_upsert_ops L df2 of
                       Inl e \<Rightarrow> (s, Some e)
                     | Inr ops \<Rightarrow>
                         (let (t, errs1) =
                                (if txn_docs = [] then (invoices_txn s, [])
                                 else insert_many rt (invoices_txn s) txn_docs);
                              s1 = s\<lparr>invoices_txn := t\<rparr>
                          in case reraise errs1 of
                               Some e \<Rightarrow> (s1, Some e)
                             | None \<Rightarrow>
                                 (let (c, errs2) =
                                        (if ops = [] then (customers_centric s1, [])
                                         else bulk_write rc (customers_centric s1) ops);
                                      s2 = s1\<lparr>customers_centric := c\<rparr>
                                  in (s2, reraise errs2)))))))"

section \<open>CRUD helpers\<close>

text \<open>
  \<open>{"$set": {"items.$.quantity": new_qty}}\<close> with the filter
  \<open>{"_id": invoice_no, "items.stock_code": stock_code}\<close>: the positional operator is the
  first item of the array that matches.
\<close>

fun set_first_quantity :: "string \<Rightarrow> int option \<Rightarrow> line_item list \<Rightarrow> line_item list" where
  "set_first_quantity sc q [] = []"
| "set_first_quantity sc q (x # xs) =
     (if stock_code x = sc then x\<lparr>quantity := q\<rparr> # xs else x # set_first_quantity sc q xs)"

text \<open>
  \<open>fails\<close> says that the store raises \<open>PyMongoError\<close> for the command; the helper then
  prints a message and returns.
\<close>

definition update_item_quantity :: "bool \<Rightarrow> db \<Rightarrow> string \<Rightarrow> string \<Rightarrow> int option \<Rightarrow> db" where
  "update_item_quantity fails s no sc new_qty =
     (if fails then s
      else case invoices_txn s no of
             None \<Rightarrow> s
           | Some d \<Rightarrow>
               if \<exists>x \<in> set (txn_items d). stock_code x = sc
               then s\<lparr>invoices_txn := (invoices_txn s)(no \<mapsto>
                        d\<lparr>txn_items := set_first_quantity sc new_qty (txn_items d)\<rparr>)\<rparr>
               else s)"



section \<open>Example data\<close>

text \<open>
  The row of the dataset used in the examples, a library that parses its date, and a state
  of the two collections holding invoice 536365 of customer 17850.
\<close>

definition example_lib :: pylib where
  "example_lib =
     \<lparr>strptime = (\<lambda>txt fmt. if txt = ''01-12-2010 08:26'' \<and> fmt = ''%d-%m-%Y %H:%M''
                   then Some \<lparr>dt_year = 2010, dt_month = 12, dt_day = 1,
                              dt_hour = 8, dt_minute = 26, dt_second = 0\<rparr>
                   else None),
      to_datetime = (\<lambda>txt. PdNaT),
      float_repr = (\<lambda>q. if q = 17850 then ''17850.0'' else ''0.0'')\<rparr>"

definition example_row :: row where
  "example_row =
     (\<lambda>c. CNone)
       (''InvoiceNo'' := CStr ''536365'', ''StockCode'' := CStr ''85123A'',
        ''Description'' := CStr ''HOLDER'', ''Quantity'' := CInt 6,
        ''InvoiceDate'' := CStr ''01-12-2010 08:26'', ''UnitPrice'' := CFloat (Finite (5 / 2)),
        ''CustomerID'' := CFloat (Finite 17850), ''Country'' := CStr ''United Kingdom'')"

definition example_columns :: "string list" where
  "example_columns =
     [''InvoiceNo'', ''StockCode'', ''Description'', ''Quantity'', ''InvoiceDate'',
      ''UnitPrice'', ''CustomerID'', ''Country'']"

definition example_frame :: frame where
  "example_frame = \<lparr>columns = example_columns, rows = [example_row]\<rparr>"

definition example_date :: date_val where
  "example_date =
     DTime \<lparr>dt_year = 2010, dt_month = 12, dt_day = 1, dt_hour = 8, dt_minute = 26, dt_second = 0\<rparr>"

definition example_items :: "line_item list" where
  "example_items =
     [\<lparr>stock_code = ''71053'', quantity = Some 6, unit_price = Some (Finite (7 / 2)),
       description = Some ''LANTERN''\<rparr>,
      \<lparr>stock_code = ''85123A'', quantity = Some 6, unit_price = Some (Finite (5 / 2)),
       description = Some ''HOLDER''\<rparr>,
      \<lparr>stock_code = ''85123A'', quantity = Some 2, unit_price = Some (Finite (5 / 2)),
       description = Some ''HOLDER''\<rparr>]"

definition example_doc :: txn_doc where
  "example_doc =
     \<lparr>txn_id = ''536365'', txn_invoice_date = example_date, txn_customer_id = Some 17850,
      txn_customer_country = Some ''United Kingdom'', txn_items = example_items,
      txn_is_cancellation = False\<rparr>"

definition example_sub :: "string \<Rightarrow> invoice_sub" where
  "example_sub no =
     \<lparr>invoice_no = no, inv_invoice_date = example_date,
      inv_items = [\<lparr>stock_code = ''85123A'', quantity = Some 6, unit_price = Some (Finite (5 / 2))\<rparr>],
      inv_is_cancellation = False\<rparr>"

definition example_db :: db where
  "example_db =
     \<lparr>invoices_txn = [''536365'' \<mapsto> example_doc],
      customers_centric =
        [Some 17850 \<mapsto> \<lparr>country = Some ''United Kingdom'',
                          invoices = Some [example_sub ''536365'', example_sub ''536366'']\<rparr>]\<rparr>"

definition example_txn :: txn_doc where
  "example_txn =
     \<lparr>txn_id = ''536365'', txn_invoice_date = example_date, txn_customer_id = Some 17850,
      txn_customer_country = Some ''United Kingdom'',
      txn_items = [\<lparr>stock_code = ''85123A'', quantity = Some 6, unit_price = Some (Finite (5 / 2)),
                    description = Some ''HOLDER''\<rparr>],
      txn_is_cancellation = False\<rparr>"

definition example_op :: upsert_op where
  "example_op =
     \<lparr>filter_id = Some 17850, set_on_insert_country = Some ''United Kingdom'',
      push_invoice = example_sub ''536365''\<rparr>"

text \<open>The example frame with an unparseable quantity, and without the \<open>Quantity\<close> column.\<close>

definition abc_frame :: frame where
  "abc_frame = \<lparr>columns = example_columns, rows = [example_row(''Quantity'' := CStr ''abc'')]\<rparr>"

definition noqty_frame :: frame where
  "noqty_frame = \<lparr>columns = [''InvoiceNo'', ''StockCode'', ''CustomerID''], rows = [example_row]\<rparr>"

definition empty_db :: db where
  "empty_db = \<lparr>invoices_txn = Map.empty, customers_centric = Map.empty\<rparr>"

definition no_reject :: "'a \<Rightarrow> nat option" where
  "no_reject x = None"

text \<open>A server that refuses every write with code 121 (document validation failure).\<close>

definition reject_all :: "'a \<Rightarrow> nat option" where
  "reject_all x = Some 121"

text \<open>The two collections after the example frame has been loaded once.\<close>

definition loaded_db :: db where
  "loaded_db =
     \<lparr>invoices_txn = [''536365'' \<mapsto> example_txn],
      customers_centric =
        [Some 17850 \<mapsto> \<lparr>country = Some ''United Kingdom'',
                          invoices = Some [example_sub ''536365'']\<rparr>]\<rparr>"

text \<open>A library in which no text parses as a date.\<close>

definition failing_lib :: "pylib \<Rightarrow> pylib" where
  "failing_lib L = L\<lparr>strptime := (\<lambda>txt fmt. None), to_datetime := (\<lambda>txt. PdNaT)\<rparr>"

text \<open>
  A second line of invoice 536365 whose customer, country and date are not those of the
  first line, a line of invoice 536366, the group of the two lines of 536365, and a frame
  with the three lines.
\<close>

definition second_row :: row where
  "second_row =
     (\<lambda>c. CNone)
       (''InvoiceNo'' := CStr ''536365'', ''StockCode'' := CStr ''71053'',
        ''Description'' := CStr ''LANTERN'', ''Quantity'' := CInt 6,
        ''InvoiceDate'' := CStr ''02-12-2010 09:00'', ''UnitPrice'' := CFloat (Finite (7 / 2)),
        ''CustomerID'' := CFloat (Finite 13047), ''Country'' := CStr ''France'')"

definition other_row :: row where
  "other_row =
     (\<lambda>c. CNone)
       (''InvoiceNo'' := CStr ''536366'', ''StockCode'' := CStr ''22633'',
        ''Description'' := CStr ''WARMER'', ''Quantity'' := CInt 6,
        ''InvoiceDate'' := CStr ''01-12-2010 08:26'', ''UnitPrice'' := CFloat (Finite (7 / 2)),
        ''CustomerID'' := CFloat (Finite 13047), ''Country'' := CStr ''France'')"

definition two_row_frame :: frame where
  "two_row_frame = \<lparr>columns = example_columns, rows = [example_row, second_row]\<rparr>"

definition two_invoice_frame :: frame where
  "two_invoice_frame = \<lparr>columns = example_columns, rows = [other_row, example_row, second_row]\<rparr>"

text \<open>
  The group of invoice 536366 in the frame with the three lines, and the documents and
  operations built from its two groups.
\<close>

definition other_frame :: frame where
  "other_frame = \<lparr>columns = example_columns, rows = [other_row]\<rparr>"

definition two_row_txn :: txn_doc where
  "two_row_txn =
     \<lparr>txn_id = ''536365'', txn_invoice_date = example_date, txn_customer_id = Some 17850,
      txn_customer_country = Some ''United Kingdom'',
      txn_items = [\<lparr>stock_code = ''85123A'', quantity = Some 6, unit_price = Some (Finite (5 / 2)),
                    description = Some ''HOLDER''\<rparr>,
                   \<lparr>stock_code = ''71053'', quantity = Some 6, unit_price = Some (Finite (7 / 2)),
                    description = Some ''LANTERN''\<rparr>],
      txn_is_cancellation = False\<rparr>"

definition other_txn :: txn_doc where
  "other_txn =
     \<lparr>txn_id = ''536366'', txn_invoice_date = example_date, txn_customer_id = Some 13047,
      txn_customer_country = Some ''France'',
      txn_items = [\<lparr>stock_code = ''22633'', quantity = Some 6, unit_price = Some (Finite (7 / 2)),
                    description = Some ''WARMER''\<rparr>],
      txn_is_cancellation = False\<rparr>"

definition two_row_op :: upsert_op where
  "two_row_op =
     \<lparr>filter_id = Some 17850, set_on_insert_country = Some ''United Kingdom'',
      push_invoice =
        \<lparr>invoice_no = ''536365'', inv_invoice_date = example_date,
         inv_items =
           [\<lparr>stock_code = ''85123A'', quantity = Some 6, unit_price = Some (Finite (5 / 2))\<rparr>,
            \<lparr>stock_code = ''71053'', quantity = Some 6, unit_price = Some (Finite (7 / 2))\<rparr>],
         inv_is_cancellation = False\<rparr>\<rparr>"

definition other_op :: upsert_op where
  "other_op =
     \<lparr>filter_id = Some 13047, set_on_insert_country = Some ''France'',
      push_invoice =
        \<lparr>invoice_no = ''536366'', inv_invoice_date = example_date,
         inv_items =
           [\<lparr>stock_code = ''22633'', quantity = Some 6, unit_price = Some (Finite (7 / 2))\<rparr>],
         inv_is_cancellation = False\<rparr>\<rparr>"

text \<open>
  A frame whose second row is the example row and whose other rows miss a quantity, a
  customer id or a stock code; a frame without the \<open>CustomerID\<close> column; and what a pass
  over the frame without the \<open>Quantity\<close> column loads into empty collections.
\<close>

definition dirty_frame :: frame where
  "dirty_frame =
     \<lparr>columns = example_columns,
      rows = [example_row(''Quantity'' := CFloat NaNf), example_row,
              second_row(''CustomerID'' := CFloat NaNf), other_row(''StockCode'' := CNone)]\<rparr>"

definition nocust_frame :: frame where
  "nocust_frame = \<lparr>columns = [''InvoiceNo'', ''StockCode'', ''Quantity''], rows = [example_row]\<rparr>"

definition noqty_db :: db where
  "noqty_db =
     \<lparr>invoices_txn =
        [''536365'' \<mapsto>
           \<lparr>txn_id = ''536365'', txn_invoice_date = DNone, txn_customer_id = Some 17850,
            txn_customer_country = None,
            txn_items = [\<lparr>stock_code = ''85123A'', quantity = None, unit_price = None,
                          description = None\<rparr>],
            txn_is_cancellation = False\<rparr>],
      customers_centric =
        [Some 17850 \<mapsto>
           \<lparr>country = None,
            invoices = Some [\<lparr>invoice_no = ''536365'', inv_invoice_date = DNone,
                              inv_items = [\<lparr>stock_code = ''85123A'', quantity = None,
                                            unit_price = None\<rparr>],
                              inv_is_cancellation = False\<rparr>]\<rparr>]\<rparr>"

text \<open>The example row in a frame that has no \<open>StockCode\<close> column.\<close>

definition nostock_frame :: frame where
  "nostock_frame = \<lparr>columns = [''InvoiceNo'', ''Quantity'', ''CustomerID''], rows = [example_row]\<rparr>"

text \<open>An operation for customer 17850 that carries another country than the stored one.\<close>

definition france_op :: upsert_op where
  "france_op =
     \<lparr>filter_id = Some 17850, set_on_insert_country = Some ''France'',
      push_invoice = example_sub ''536367''\<rparr>"

section \<open>The CRUD helpers\<close>

lemma set_first_quantity_update:
  "\<exists>x \<in> set xs. stock_code x = sc \<Longrightarrow>
   set_first_quantity sc q xs =
     xs[length (takeWhile (\<lambda>x. stock_code x \<noteq> sc) xs) :=
          (xs ! length (takeWhile (\<lambda>x. stock_code x \<noteq> sc) xs))\<lparr>quantity := q\<rparr>]"
  by (induction xs) auto

text \<open>
  Claim C6. \<open>update_item_quantity\<close> leaves every customer-centric document as it is, and
  every transaction-centric document other than the one of the invoice. In that document
  it changes one thing: the quantity of the first line item with the stock code (when the
  store executes the command and such an item exists); otherwise nothing.
\<close>

theorem update_item_quantity_frame:
  "customers_centric (update_item_quantity fails s no sc q) = customers_centric s \<and>
   (\<forall>k. k \<noteq> no \<longrightarrow> invoices_txn (update_item_quantity fails s no sc q) k = invoices_txn s k) \<and>
   (invoices_txn s no = None \<longrightarrow> invoices_txn (update_item_quantity fails s no sc q) no = None) \<and>
   (\<forall>d. invoices_txn s no = Some d \<longrightarrow>
      invoices_txn (update_item_quantity fails s no sc q) no =
        Some (d\<lparr>txn_items :=
          (if \<not> fails \<and> (\<exists>x \<in> set (txn_items d). stock_code x = sc)
           then (txn_items d)[length (takeWhile (\<lambda>x. stock_code x \<noteq> sc) (txn_items d)) :=
                  (txn_items d ! length (takeWhile (\<lambda>x. stock_code x \<noteq> sc) (txn_items d)))
                    \<lparr>quantity := q\<rparr>]
           else txn_items d)\<rparr>))"
  by (auto simp: update_item_quantity_def set_first_quantity_update split: option.splits)

theorem update_item_quantity_frame_witness:
  "invoices_txn example_db ''536365'' = Some example_doc \<and>
   (\<exists>x \<in> set (txn_items example_doc). stock_code x = ''85123A'') \<and>
   invoices_txn (update_item_quantity False example_db ''536365'' ''85123A'' (Some 9)) ''536365'' =
     Some (example_doc\<lparr>txn_items :=
       [example_items ! 0, (example_items ! 1)\<lparr>quantity := Some 9\<rparr>, example_items ! 2]\<rparr>) \<and>
   invoices_txn (update_item_quantity False example_db ''536365'' ''85123A'' (Some 9)) ''536366'' =
     invoices_txn example_db ''536366'' \<and>
   customers_centric (update_item_quantity False example_db ''536365'' ''85123A'' (Some 9)) =
     customers_centric example_db"
proof -
  note T = update_item_quantity_frame [of False example_db "''536365''" "''85123A''" "Some 9"]
  have a: "invoices_txn example_db ''536365'' = Some example_doc"
    by (simp add: example_db_def)
  have b: "\<exists>x \<in> set (txn_items example_doc). stock_code x = ''85123A''"
    by (simp add: example_doc_def example_items_def)
  have i: "length (takeWhile (\<lambda>x. stock_code x \<noteq> ''85123A'') (txn_items example_doc)) = 1"
    by (simp add: example_doc_def example_items_def)
  have u: "(txn_items example_doc)[1 := (txn_items example_doc ! 1)\<lparr>quantity := Some 9\<rparr>] =
      [example_items ! 0, (example_items ! 1)\<lparr>quantity := Some 9\<rparr>, example_items ! 2]"
    by (simp add: example_doc_def example_items_def)
  note T4 = T [THEN conjunct2, THEN conjunct2, THEN conjunct2, rule_format, OF a]
  from T4 b have c: "invoices_txn (update_item_quantity False example_db ''536365'' ''85123A'' (Some 9))
      ''536365'' =
      Some (example_doc\<lparr>txn_items :=
        [example_items ! 0, (example_items ! 1)\<lparr>quantity := Some 9\<rparr>, example_items ! 2]\<rparr>)"
    by (simp only: i u simp_thms if_True)
  have ne: "''536366'' \<noteq> ''536365''"
    by simp
  have d: "invoices_txn (update_item_quantity False example_db ''536365'' ''85123A'' (Some 9))
      ''536366'' = invoices_txn example_db ''536366''"
    by (rule T [THEN conjunct2, THEN conjunct1, rule_format, OF ne])
  from T have e: "customers_centric (update_item_quantity False example_db ''536365'' ''85123A'' (Some 9)) =
      customers_centric example_db"
    by (rule conjunct1)
  from a b c d e show ?thesis
    by (intro conjI)
qed




section \<open>Evaluation of the example\<close>

lemma float_of_int_6: "float_of_int 6 = Inr (Finite 6)"
  by (simp add: float_of_int_def binary64_mag_def ilog2_def scale2_def bitlen.simps
      round_half_even_def pow2_def)

lemma safe_int_CInt_6: "safe_int (CInt 6) = Some 6"
  by (simp add: safe_int_def py_float_def float_of_int_6 py_int_of_float_def trunc_def)

lemma safe_int_CFloat_17850: "safe_int (CFloat (Finite 17850)) = Some 17850"
  by (simp add: safe_int_def py_float_def py_int_of_float_def trunc_def)

lemma safe_float_CFloat: "safe_float (CFloat f) = Some f"
  by (simp add: safe_float_def py_float_def)

lemma example_parse_date:
  "parse_invoice_date example_lib (CStr ''01-12-2010 08:26'') = example_date"
  by (simp add: parse_invoice_date_def isna_def py_str_def strip_def is_space_def formats_def
      example_lib_def example_date_def)

lemma example_clean: "clean example_frame = Some example_frame"
  by (simp add: clean_def dropna_def needed_def example_frame_def example_columns_def
      example_row_def isna_def)

lemma example_group_keys: "group_keys example_frame = [(3, 0, ''536365'')]"
  by (simp add: group_keys_def example_frame_def example_row_def group_key_def List.map_filter_simps)

lemma example_groupby: "groupby example_frame = Inr [example_frame]"
  by (simp add: groupby_def example_group_keys)
    (simp add: example_frame_def example_columns_def example_row_def group_key_def)

lemma example_row_get:
  "row_get example_frame example_row ''Quantity'' = CInt 6"
  "row_get example_frame example_row ''UnitPrice'' = CFloat (Finite (5 / 2))"
  "row_get example_frame example_row ''Description'' = CStr ''HOLDER''"
  "row_get example_frame example_row ''CustomerID'' = CFloat (Finite 17850)"
  "row_get example_frame example_row ''InvoiceDate'' = CStr ''01-12-2010 08:26''"
  "row_get example_frame example_row ''Country'' = CStr ''United Kingdom''"
  "row_item example_frame example_row ''InvoiceNo'' = Inr (CStr ''536365'')"
  "example_row ''StockCode'' = CStr ''85123A''"
  "example_row ''InvoiceNo'' = CStr ''536365''"
  by (simp_all add: row_get_def row_item_def example_frame_def example_columns_def example_row_def)

lemma example_columns_mem:
  "''StockCode'' \<in> set (columns example_frame)"
  "''Country'' \<in> set (columns example_frame)"
  "rows example_frame = [example_row]"
  by (simp_all add: example_frame_def example_columns_def)

lemma example_build: "build_txn_doc example_lib example_frame = Inr example_txn"
  by (simp add: build_txn_doc_def example_columns_mem example_row_get txn_item_def country_of_def
      py_str_def isna_def safe_int_CInt_6 safe_int_CFloat_17850 safe_float_CFloat
      example_parse_date is_cancellation_def example_txn_def)

lemma example_customer_op: "customer_op example_lib example_frame = Inr example_op"
  by (simp add: customer_op_def example_columns_mem example_row_get cust_item_def country_of_def
      py_str_def safe_int_CInt_6 safe_int_CFloat_17850 safe_float_CFloat
      example_parse_date is_cancellation_def example_op_def example_sub_def)

lemma example_ops: "customer_upsert_ops example_lib example_frame = Inr [example_op]"
  by (simp add: customer_upsert_ops_def example_groupby example_customer_op)

lemma safe_int_CFloat_13047: "safe_int (CFloat (Finite 13047)) = Some 13047"
  by (simp add: safe_int_def py_float_def py_int_of_float_def trunc_def)

lemma safe_int_CNone: "safe_int CNone = None"
  by (simp add: safe_int_def py_float_def)

lemma safe_float_CNone: "safe_float CNone = None"
  by (simp add: safe_float_def py_float_def)

lemma second_row_get:
  "second_row ''InvoiceNo'' = CStr ''536365''"
  "second_row ''StockCode'' = CStr ''71053''"
  "second_row ''Description'' = CStr ''LANTERN''"
  "second_row ''Quantity'' = CInt 6"
  "second_row ''InvoiceDate'' = CStr ''02-12-2010 09:00''"
  "second_row ''UnitPrice'' = CFloat (Finite (7 / 2))"
  "second_row ''CustomerID'' = CFloat (Finite 13047)"
  "second_row ''Country'' = CStr ''France''"
  by (simp_all add: second_row_def)

lemma other_row_get:
  "other_row ''InvoiceNo'' = CStr ''536366''"
  "other_row ''StockCode'' = CStr ''22633''"
  "other_row ''Description'' = CStr ''WARMER''"
  "other_row ''Quantity'' = CInt 6"
  "other_row ''InvoiceDate'' = CStr ''01-12-2010 08:26''"
  "other_row ''UnitPrice'' = CFloat (Finite (7 / 2))"
  "other_row ''CustomerID'' = CFloat (Finite 13047)"
  "other_row ''Country'' = CStr ''France''"
  by (simp_all add: other_row_def)

lemma example_row_cells:
  "example_row ''InvoiceNo'' = CStr ''536365''"
  "example_row ''StockCode'' = CStr ''85123A''"
  "example_row ''Description'' = CStr ''HOLDER''"
  "example_row ''Quantity'' = CInt 6"
  "example_row ''InvoiceDate'' = CStr ''01-12-2010 08:26''"
  "example_row ''UnitPrice'' = CFloat (Finite (5 / 2))"
  "example_row ''CustomerID'' = CFloat (Finite 17850)"
  "example_row ''Country'' = CStr ''United Kingdom''"
  by (simp_all add: example_row_def)

lemma example_columns_set:
  "''InvoiceNo'' \<in> set example_columns" "''StockCode'' \<in> set example_columns"
  "''Description'' \<in> set example_columns" "''Quantity'' \<in> set example_columns"
  "''InvoiceDate'' \<in> set example_columns" "''UnitPrice'' \<in> set example_columns"
  "''CustomerID'' \<in> set example_columns" "''Country'' \<in> set example_columns"
  by (simp_all add: example_columns_def)

lemma two_row_frame_sel:
  "columns two_row_frame = example_columns" "rows two_row_frame = [example_row, second_row]"
  by (simp_all add: two_row_frame_def)

lemma two_invoice_frame_sel:
  "columns two_invoice_frame = example_columns"
  "rows two_invoice_frame = [other_row, example_row, second_row]"
  by (simp_all add: two_invoice_frame_def)

lemma nostock_frame_sel:
  "columns nostock_frame = [''InvoiceNo'', ''Quantity'', ''CustomerID'']"
  "rows nostock_frame = [example_row]"
  by (simp_all add: nostock_frame_def)

lemma nostock_clean: "clean nostock_frame = Some nostock_frame"
  by (simp add: clean_def dropna_def needed_def nostock_frame_def example_row_cells isna_def)

lemma nostock_groupby: "groupby nostock_frame = Inr [nostock_frame]"
  by (simp add: groupby_def group_keys_def nostock_frame_sel example_row_cells group_key_def
      List.map_filter_simps)

lemma nostock_build: "build_txn_doc example_lib nostock_frame = Inl KeyError"
  by (simp add: build_txn_doc_def nostock_frame_sel row_item_def)

lemma two_invoice_keys:
  "group_key (other_row ''InvoiceNo'') = Some (3, 0, ''536366'')"
  "group_key (example_row ''InvoiceNo'') = Some (3, 0, ''536365'')"
  "group_key (second_row ''InvoiceNo'') = Some (3, 0, ''536365'')"
  by (simp_all add: group_key_def other_row_get example_row_cells second_row_get)

lemma two_invoice_group_keys:
  "group_keys two_invoice_frame = [(3, 0, ''536365''), (3, 0, ''536366'')]"
  by (simp add: group_keys_def two_invoice_frame_sel two_invoice_keys List.map_filter_simps
      less_eq_prod_def less_eq_char_def less_char_def)

lemma two_invoice_groups:
  "filter (\<lambda>r. group_key (r ''InvoiceNo'') = Some (3, 0, ''536365'')) (rows two_invoice_frame) =
     [example_row, second_row]"
  "filter (\<lambda>r. group_key (r ''InvoiceNo'') = Some (3, 0, ''536366'')) (rows two_invoice_frame) =
     [other_row]"
  by (simp_all add: two_invoice_frame_sel two_invoice_keys)

lemma other_frame_sel:
  "columns other_frame = example_columns" "rows other_frame = [other_row]"
  by (simp_all add: other_frame_def)

lemma two_invoice_clean: "clean two_invoice_frame = Some two_invoice_frame"
  by (simp add: clean_def dropna_def needed_def two_invoice_frame_def example_columns_def
      example_row_cells second_row_get other_row_get isna_def)

lemma two_invoice_groupby: "groupby two_invoice_frame = Inr [two_row_frame, other_frame]"
  by (simp add: groupby_def two_invoice_group_keys two_invoice_groups two_invoice_frame_sel(1)
      example_columns_set)
    (simp add: two_invoice_frame_def two_row_frame_def other_frame_def)

lemma two_row_build: "build_txn_doc example_lib two_row_frame = Inr two_row_txn"
  by (simp add: build_txn_doc_def two_row_frame_sel row_item_def row_get_def example_columns_set
      example_row_cells second_row_get txn_item_def country_of_def py_str_def isna_def
      safe_int_CInt_6 safe_int_CFloat_17850 safe_float_CFloat example_parse_date
      is_cancellation_def two_row_txn_def)

lemma other_build: "build_txn_doc example_lib other_frame = Inr other_txn"
  by (simp add: build_txn_doc_def other_frame_sel row_item_def row_get_def example_columns_set
      other_row_get txn_item_def country_of_def py_str_def isna_def
      safe_int_CInt_6 safe_int_CFloat_13047 safe_float_CFloat example_parse_date
      is_cancellation_def other_txn_def)

lemma two_invoice_docs:
  "collect (map (build_txn_doc example_lib) [two_row_frame, other_frame]) =
     Inr [two_row_txn, other_txn]"
  by (simp add: two_row_build other_build)

lemma two_invoice_ops:
  "customer_upsert_ops example_lib two_invoice_frame = Inr [two_row_op, other_op]"
  by (simp add: customer_upsert_ops_def two_invoice_groupby customer_op_def two_row_frame_sel
      other_frame_sel row_get_def example_columns_set example_row_cells second_row_get
      other_row_get cust_item_def country_of_def py_str_def safe_int_CInt_6
      safe_int_CFloat_17850 safe_int_CFloat_13047 safe_float_CFloat example_parse_date
      is_cancellation_def two_row_op_def other_op_def)

lemma example_docs:
  "collect (map (build_txn_doc example_lib) [example_frame]) = Inr [example_txn]"
  by (simp add: example_build)

lemma example_load:
  "process_frame example_lib no_reject no_reject empty_db example_frame = (loaded_db, None)"
  by (simp add: process_frame_def example_clean example_groupby example_build example_ops
      reraise_def no_reject_def update_one_upsert_def empty_db_def loaded_db_def example_txn_def
      example_op_def)

lemma noqty_frame_sel:
  "columns noqty_frame = [''InvoiceNo'', ''StockCode'', ''CustomerID'']"
  "rows noqty_frame = [example_row]"
  by (simp_all add: noqty_frame_def)

lemma noqty_clean: "clean noqty_frame = Some noqty_frame"
  by (simp add: clean_def dropna_def needed_def noqty_frame_def example_row_cells isna_def)

lemma noqty_groupby: "groupby noqty_frame = Inr [noqty_frame]"
  by (simp add: groupby_def group_keys_def noqty_frame_sel example_row_cells group_key_def
      List.map_filter_simps)

lemma noqty_load:
  "process_frame example_lib no_reject no_reject empty_db noqty_frame = (noqty_db, None)"
  by (simp add: process_frame_def noqty_clean noqty_groupby build_txn_doc_def
      customer_upsert_ops_def customer_op_def noqty_frame_sel row_item_def row_get_def
      example_row_cells txn_item_def cust_item_def country_of_def py_str_def isna_def
      safe_int_CNone safe_float_CNone safe_int_CFloat_17850 parse_invoice_date_def
      is_cancellation_def reraise_def no_reject_def update_one_upsert_def empty_db_def
      noqty_db_def)

lemma dirty_frame_sel:
  "columns dirty_frame = example_columns"
  "rows dirty_frame =
     [example_row(''Quantity'' := CFloat NaNf), example_row,
      second_row(''CustomerID'' := CFloat NaNf), other_row(''StockCode'' := CNone)]"
  by (simp_all add: dirty_frame_def)

section \<open>Groups and builders\<close>

lemma set_group_keys:
  "set (group_keys df) = {k. \<exists>r \<in> set (rows df). group_key (r ''InvoiceNo'') = Some k}"
  by (force simp: group_keys_def List.map_filter_def image_iff)

lemma build_txn_doc_Inr:
  "rows g \<noteq> [] \<Longrightarrow> ''InvoiceNo'' \<in> set (columns g) \<Longrightarrow> ''StockCode'' \<in> set (columns g) \<Longrightarrow>
   \<exists>d. build_txn_doc L g = Inr d"
  by (cases "rows g") (auto simp: build_txn_doc_def row_item_def)

lemma collect_map_eq:
  "\<forall>x \<in> set xs. f x = Inr (h x) \<Longrightarrow> collect (map f xs) = Inr (map h xs)"
  by (induction xs) auto

lemma distinct_group_keys: "distinct (group_keys df)"
  by (simp add: group_keys_def)

lemma group_rows_nonempty:
  "k \<in> set (group_keys df) \<Longrightarrow>
   filter (\<lambda>r. group_key (r ''InvoiceNo'') = Some k) (rows df) \<noteq> []"
  by (auto simp: set_group_keys filter_empty_conv)

lemma customer_op_rows:
  "rows g = first # rest \<Longrightarrow> ''StockCode'' \<in> set (columns g) \<Longrightarrow>
   customer_op L g =
     Inr \<lparr>filter_id = safe_int (row_get g first ''CustomerID''),
          set_on_insert_country =
            (if ''Country'' \<in> set (columns g) then Some (py_str L (first ''Country'')) else None),
          push_invoice =
            \<lparr>invoice_no = py_str L (first ''InvoiceNo''),
             inv_invoice_date = parse_invoice_date L (row_get g first ''InvoiceDate''),
             inv_items =
               map (\<lambda>r. \<lparr>stock_code = py_str L (r ''StockCode''),
                          quantity = safe_int (row_get g r ''Quantity''),
                          unit_price = safe_float (row_get g r ''UnitPrice'')\<rparr>) (first # rest),
             inv_is_cancellation = is_cancellation (py_str L (first ''InvoiceNo''))\<rparr>\<rparr>"
  by (simp add: customer_op_def country_of_def cust_item_def row_get_def)

section \<open>The customer upsert\<close>

text \<open>
  Claim C5, as amended. An upsert operation applied to a collection that has the
  customer's document leaves its country as it is, whatever country it carries, and appends the
  invoice sub-document to \<open>invoices\<close>, creating the array when the field is absent; when
  the document does not exist it is created with the operation's country and the one
  invoice; no other document changes. For a frame that has the columns \<open>InvoiceNo\<close> and
  \<open>StockCode\<close>, \<open>customer_upsert_ops\<close> returns one operation for each invoice key of the
  rows, in the order of the keys. The operation of a key is made from the rows with that
  key: it targets the customer id of the first of them, carries the country of the first
  as the country to set on insert, and pushes the invoice sub-document with the invoice
  number and date of the first row and one item for each of the rows, in their order.
\<close>

theorem customer_upsert_country_kept:
  "(\<forall>d. c (filter_id op) = Some d \<longrightarrow>
      (\<exists>d'. update_one_upsert c op (filter_id op) = Some d' \<and> country d' = country d \<and>
            invoices d' = Some (case invoices d of None \<Rightarrow> [push_invoice op]
                                | Some xs \<Rightarrow> xs @ [push_invoice op]))) \<and>
   (c (filter_id op) = None \<longrightarrow>
      update_one_upsert c op (filter_id op) =
        Some \<lparr>country = set_on_insert_country op, invoices = Some [push_invoice op]\<rparr>) \<and>
   (\<forall>k. k \<noteq> filter_id op \<longrightarrow> update_one_upsert c op k = c k) \<and>
   (''InvoiceNo'' \<in> set (columns df) \<longrightarrow> ''StockCode'' \<in> set (columns df) \<longrightarrow>
      (\<exists>ops. customer_upsert_ops L df = Inr ops \<and>
         length ops = length (group_keys df) \<and>
         distinct (group_keys df) \<and>
         set (group_keys df) = {k. \<exists>r \<in> set (rows df). group_key (r ''InvoiceNo'') = Some k} \<and>
         (\<forall>i < length (group_keys df).
            \<exists>first rest.
              filter (\<lambda>r. group_key (r ''InvoiceNo'') = Some (group_keys df ! i)) (rows df) =
                first # rest \<and>
              ops ! i =
                \<lparr>filter_id = safe_int (row_get df first ''CustomerID''),
                 set_on_insert_country =
                   (if ''Country'' \<in> set (columns df) then Some (py_str L (first ''Country''))
                    else None),
                 push_invoice =
                   \<lparr>invoice_no = py_str L (first ''InvoiceNo''),
                    inv_invoice_date = parse_invoice_date L (row_get df first ''InvoiceDate''),
                    inv_items =
                      map (\<lambda>r. \<lparr>stock_code = py_str L (r ''StockCode''),
                                 quantity = safe_int (row_get df r ''Quantity''),
                                 unit_price = safe_float (row_get df r ''UnitPrice'')\<rparr>)
                        (first # rest),
                    inv_is_cancellation = is_cancellation (py_str L (first ''InvoiceNo''))\<rparr>\<rparr>)))"
proof -
  have a: "\<forall>d. c (filter_id op) = Some d \<longrightarrow>
      (\<exists>d'. update_one_upsert c op (filter_id op) = Some d' \<and> country d' = country d \<and>
            invoices d' = Some (case invoices d of None \<Rightarrow> [push_invoice op]
                                | Some xs \<Rightarrow> xs @ [push_invoice op]))"
    by (simp add: update_one_upsert_def push_def)
  have b: "c (filter_id op) = None \<longrightarrow>
      update_one_upsert c op (filter_id op) =
        Some \<lparr>country = set_on_insert_country op, invoices = Some [push_invoice op]\<rparr>"
    by (simp add: update_one_upsert_def)
  have k: "\<forall>k. k \<noteq> filter_id op \<longrightarrow> update_one_upsert c op k = c k"
    by (simp add: update_one_upsert_def split: option.splits)
  define grp where "grp k = filter (\<lambda>r. group_key (r ''InvoiceNo'') = Some k) (rows df)" for k
  define h where "h k =
      \<lparr>filter_id = safe_int (row_get df (hd (grp k)) ''CustomerID''),
       set_on_insert_country =
         (if ''Country'' \<in> set (columns df) then Some (py_str L (hd (grp k) ''Country''))
          else None),
       push_invoice =
         \<lparr>invoice_no = py_str L (hd (grp k) ''InvoiceNo''),
          inv_invoice_date = parse_invoice_date L (row_get df (hd (grp k)) ''InvoiceDate''),
          inv_items =
            map (\<lambda>r. \<lparr>stock_code = py_str L (r ''StockCode''),
                       quantity = safe_int (row_get df r ''Quantity''),
                       unit_price = safe_float (row_get df r ''UnitPrice'')\<rparr>) (grp k),
          inv_is_cancellation = is_cancellation (py_str L (hd (grp k) ''InvoiceNo''))\<rparr>\<rparr>" for k
  have g: "\<exists>ops. customer_upsert_ops L df = Inr ops \<and>
         length ops = length (group_keys df) \<and>
         distinct (group_keys df) \<and>
         set (group_keys df) = {k. \<exists>r \<in> set (rows df). group_key (r ''InvoiceNo'') = Some k} \<and>
         (\<forall>i < length (group_keys df).
            \<exists>first rest.
              filter (\<lambda>r. group_key (r ''InvoiceNo'') = Some (group_keys df ! i)) (rows df) =
                first # rest \<and>
              ops ! i =
                \<lparr>filter_id = safe_int (row_get df first ''CustomerID''),
                 set_on_insert_country =
                   (if ''Country'' \<in> set (columns df) then Some (py_str L (first ''Country''))
                    else None),
                 push_invoice =
                   \<lparr>invoice_no = py_str L (first ''InvoiceNo''),
                    inv_invoice_date = parse_invoice_date L (row_get df first ''InvoiceDate''),
                    inv_items =
                      map (\<lambda>r. \<lparr>stock_code = py_str L (r ''StockCode''),
                                 quantity = safe_int (row_get df r ''Quantity''),
                                 unit_price = safe_float (row_get df r ''UnitPrice'')\<rparr>)
                        (first # rest),
                    inv_is_cancellation = is_cancellation (py_str L (first ''InvoiceNo''))\<rparr>\<rparr>)"
    if i: "''InvoiceNo'' \<in> set (columns df)" and s: "''StockCode'' \<in> set (columns df)"
  proof -
    have one: "customer_op L (df\<lparr>rows := grp k\<rparr>) = Inr (h k)" if "k \<in> set (group_keys df)" for k
    proof -
      from group_rows_nonempty [OF that] obtain first rest where r: "grp k = first # rest"
        by (cases "grp k") (auto simp: grp_def)
      have "rows (df\<lparr>rows := grp k\<rparr>) = first # rest" "''StockCode'' \<in> set (columns (df\<lparr>rows := grp k\<rparr>))"
        using r s by simp_all
      from customer_op_rows [OF this] show ?thesis
        by (simp add: h_def r row_get_def)
    qed
    have gb: "groupby df = Inr (map (\<lambda>k. df\<lparr>rows := grp k\<rparr>) (group_keys df))"
      using i by (simp add: groupby_def grp_def)
    have "collect (map (customer_op L) (map (\<lambda>k. df\<lparr>rows := grp k\<rparr>) (group_keys df))) =
        Inr (map h (group_keys df))"
      unfolding map_map comp_def
      by (rule collect_map_eq) (simp add: one)
    with gb have ops: "customer_upsert_ops L df = Inr (map h (group_keys df))"
      by (simp add: customer_upsert_ops_def)
    have each: "\<exists>first rest.
          filter (\<lambda>r. group_key (r ''InvoiceNo'') = Some (group_keys df ! i)) (rows df) =
            first # rest \<and>
          map h (group_keys df) ! i =
            \<lparr>filter_id = safe_int (row_get df first ''CustomerID''),
             set_on_insert_country =
               (if ''Country'' \<in> set (columns df) then Some (py_str L (first ''Country''))
                else None),
             push_invoice =
               \<lparr>invoice_no = py_str L (first ''InvoiceNo''),
                inv_invoice_date = parse_invoice_date L (row_get df first ''InvoiceDate''),
                inv_items =
                  map (\<lambda>r. \<lparr>stock_code = py_str L (r ''StockCode''),
                             quantity = safe_int (row_get df r ''Quantity''),
                             unit_price = safe_float (row_get df r ''UnitPrice'')\<rparr>)
                    (first # rest),
                inv_is_cancellation = is_cancellation (py_str L (first ''InvoiceNo''))\<rparr>\<rparr>"
      if lt: "i < length (group_keys df)" for i
    proof -
      from lt have "group_keys df ! i \<in> set (group_keys df)"
        by simp
      from group_rows_nonempty [OF this] obtain first rest
        where r: "grp (group_keys df ! i) = first # rest"
        by (cases "grp (group_keys df ! i)") (auto simp: grp_def)
      then have "filter (\<lambda>r. group_key (r ''InvoiceNo'') = Some (group_keys df ! i)) (rows df) =
          first # rest"
        by (simp add: grp_def)
      moreover from lt r have "map h (group_keys df) ! i =
            \<lparr>filter_id = safe_int (row_get df first ''CustomerID''),
             set_on_insert_country =
               (if ''Country'' \<in> set (columns df) then Some (py_str L (first ''Country''))
                else None),
             push_invoice =
               \<lparr>invoice_no = py_str L (first ''InvoiceNo''),
                inv_invoice_date = parse_invoice_date L (row_get df first ''InvoiceDate''),
                inv_items =
                  map (\<lambda>r. \<lparr>stock_code = py_str L (r ''StockCode''),
                             quantity = safe_int (row_get df r ''Quantity''),
                             unit_price = safe_float (row_get df r ''UnitPrice'')\<rparr>)
                    (first # rest),
                inv_is_cancellation = is_cancellation (py_str L (first ''InvoiceNo''))\<rparr>\<rparr>"
        by (simp add: h_def)
      ultimately show ?thesis
        by blast
    qed
    have len: "length (map h (group_keys df)) = length (group_keys df)"
      by simp
    from ops len distinct_group_keys [of df] set_group_keys [of df] each show ?thesis
      by blast
  qed
  from a b k g show ?thesis by blast
qed

theorem customer_upsert_country_kept_witness:
  "customers_centric example_db (filter_id france_op) =
     Some \<lparr>country = Some ''United Kingdom'',
           invoices = Some [example_sub ''536365'', example_sub ''536366'']\<rparr> \<and>
   set_on_insert_country france_op = Some ''France'' \<and>
   (\<exists>d'. update_one_upsert (customers_centric example_db) france_op (filter_id france_op) = Some d' \<and>
         country d' = Some ''United Kingdom'' \<and>
         invoices d' = Some [example_sub ''536365'', example_sub ''536366'', example_sub ''536367'']) \<and>
   Some 1 \<noteq> filter_id france_op \<and>
   update_one_upsert (customers_centric example_db) france_op (Some 1) = None \<and>
   customers_centric empty_db (filter_id france_op) = None \<and>
   update_one_upsert (customers_centric empty_db) france_op (filter_id france_op) =
     Some \<lparr>country = Some ''France'', invoices = Some [example_sub ''536367'']\<rparr> \<and>
   ''InvoiceNo'' \<in> set (columns two_invoice_frame) \<and>
   ''StockCode'' \<in> set (columns two_invoice_frame) \<and>
   rows two_invoice_frame = [other_row, example_row, second_row] \<and>
   customer_upsert_ops example_lib two_invoice_frame =
     Inr [\<lparr>filter_id = Some 17850, set_on_insert_country = Some ''United Kingdom'',
           push_invoice =
             \<lparr>invoice_no = ''536365'', inv_invoice_date = example_date,
              inv_items =
                [\<lparr>stock_code = ''85123A'', quantity = Some 6, unit_price = Some (Finite (5 / 2))\<rparr>,
                 \<lparr>stock_code = ''71053'', quantity = Some 6, unit_price = Some (Finite (7 / 2))\<rparr>],
              inv_is_cancellation = False\<rparr>\<rparr>,
          \<lparr>filter_id = Some 13047, set_on_insert_country = Some ''France'',
           push_invoice =
             \<lparr>invoice_no = ''536366'', inv_invoice_date = example_date,
              inv_items =
                [\<lparr>stock_code = ''22633'', quantity = Some 6, unit_price = Some (Finite (7 / 2))\<rparr>],
              inv_is_cancellation = False\<rparr>\<rparr>]"
proof -
  note T = customer_upsert_country_kept
    [of "customers_centric example_db" france_op two_invoice_frame example_lib]
  note E = customer_upsert_country_kept
    [of "customers_centric empty_db" france_op two_invoice_frame example_lib]
  have a: "customers_centric example_db (filter_id france_op) =
     Some \<lparr>country = Some ''United Kingdom'',
           invoices = Some [example_sub ''536365'', example_sub ''536366'']\<rparr>"
    by (simp add: example_db_def france_op_def)
  have a': "set_on_insert_country france_op = Some ''France''"
    by (simp add: france_op_def)
  from T [THEN conjunct1, rule_format, OF a]
  have b: "\<exists>d'. update_one_upsert (customers_centric example_db) france_op (filter_id france_op) = Some d' \<and>
         country d' = Some ''United Kingdom'' \<and>
         invoices d' = Some [example_sub ''536365'', example_sub ''536366'', example_sub ''536367'']"
    by (simp add: france_op_def)
  have ne: "Some 1 \<noteq> filter_id france_op"
    by (simp add: france_op_def)
  from T [THEN conjunct2, THEN conjunct2, THEN conjunct1, rule_format, OF ne]
  have c: "update_one_upsert (customers_centric example_db) france_op (Some 1) = None"
    by (simp add: example_db_def)
  have d: "customers_centric empty_db (filter_id france_op) = None"
    by (simp add: empty_db_def)
  from E [THEN conjunct2, THEN conjunct1, rule_format, OF d]
  have d': "update_one_upsert (customers_centric empty_db) france_op (filter_id france_op) =
     Some \<lparr>country = Some ''France'', invoices = Some [example_sub ''536367'']\<rparr>"
    by (simp add: france_op_def)
  have e: "''InvoiceNo'' \<in> set (columns two_invoice_frame)"
    "''StockCode'' \<in> set (columns two_invoice_frame)"
    by (simp_all add: two_invoice_frame_sel example_columns_set)
  from T [THEN conjunct2, THEN conjunct2, THEN conjunct2, rule_format, OF e]
  obtain ops where ops: "customer_upsert_ops example_lib two_invoice_frame = Inr ops"
    and len: "length ops = length (group_keys two_invoice_frame)"
    and each: "\<forall>i < length (group_keys two_invoice_frame).
        \<exists>first rest.
          filter (\<lambda>r. group_key (r ''InvoiceNo'') = Some (group_keys two_invoice_frame ! i))
            (rows two_invoice_frame) = first # rest \<and>
          ops ! i =
            \<lparr>filter_id = safe_int (row_get two_invoice_frame first ''CustomerID''),
             set_on_insert_country =
               (if ''Country'' \<in> set (columns two_invoice_frame)
                then Some (py_str example_lib (first ''Country'')) else None),
             push_invoice =
               \<lparr>invoice_no = py_str example_lib (first ''InvoiceNo''),
                inv_invoice_date =
                  parse_invoice_date example_lib (row_get two_invoice_frame first ''InvoiceDate''),
                inv_items =
                  map (\<lambda>r. \<lparr>stock_code = py_str example_lib (r ''StockCode''),
                             quantity = safe_int (row_get two_invoice_frame r ''Quantity''),
                             unit_price = safe_float (row_get two_invoice_frame r ''UnitPrice'')\<rparr>)
                    (first # rest),
                inv_is_cancellation = is_cancellation (py_str example_lib (first ''InvoiceNo''))\<rparr>\<rparr>"
    by blast
  have l2: "length ops = 2"
    using len by (simp add: two_invoice_group_keys)
  have i0: "(0::nat) < length (group_keys two_invoice_frame)"
    and i1: "(1::nat) < length (group_keys two_invoice_frame)"
    by (simp_all add: two_invoice_group_keys)
  from each [rule_format, OF i0]
  have o0: "ops ! 0 =
      \<lparr>filter_id = Some 17850, set_on_insert_country = Some ''United Kingdom'',
       push_invoice =
         \<lparr>invoice_no = ''536365'', inv_invoice_date = example_date,
          inv_items =
            [\<lparr>stock_code = ''85123A'', quantity = Some 6, unit_price = Some (Finite (5 / 2))\<rparr>,
             \<lparr>stock_code = ''71053'', quantity = Some 6, unit_price = Some (Finite (7 / 2))\<rparr>],
          inv_is_cancellation = False\<rparr>\<rparr>"
    by (auto simp: two_invoice_group_keys two_invoice_groups two_invoice_frame_sel(1) row_get_def
        example_columns_set example_row_cells second_row_get py_str_def safe_int_CInt_6
        safe_int_CFloat_17850 safe_float_CFloat example_parse_date is_cancellation_def)
  from each [rule_format, OF i1]
  have o1: "ops ! 1 =
      \<lparr>filter_id = Some 13047, set_on_insert_country = Some ''France'',
       push_invoice =
         \<lparr>invoice_no = ''536366'', inv_invoice_date = example_date,
          inv_items =
            [\<lparr>stock_code = ''22633'', quantity = Some 6, unit_price = Some (Finite (7 / 2))\<rparr>],
          inv_is_cancellation = False\<rparr>\<rparr>"
    by (auto simp: two_invoice_group_keys two_invoice_groups two_invoice_frame_sel(1) row_get_def
        example_columns_set other_row_get py_str_def safe_int_CInt_6
        safe_int_CFloat_13047 safe_float_CFloat example_parse_date is_cancellation_def)
  from l2 have "ops = [ops ! 0, ops ! 1]"
    by (cases ops; cases "tl ops") auto
  with ops o0 o1 have f: "customer_upsert_ops example_lib two_invoice_frame =
     Inr [\<lparr>filter_id = Some 17850, set_on_insert_country = Some ''United Kingdom'',
           push_invoice =
             \<lparr>invoice_no = ''536365'', inv_invoice_date = example_date,
              inv_items =
                [\<lparr>stock_code = ''85123A'', quantity = Some 6, unit_price = Some (Finite (5 / 2))\<rparr>,
                 \<lparr>stock_code = ''71053'', quantity = Some 6, unit_price = Some (Finite (7 / 2))\<rparr>],
              inv_is_cancellation = False\<rparr>\<rparr>,
          \<lparr>filter_id = Some 13047, set_on_insert_country = Some ''France'',
           push_invoice =
             \<lparr>invoice_no = ''536366'', inv_invoice_date = example_date,
              inv_items =
                [\<lparr>stock_code = ''22633'', quantity = Some 6, unit_price = Some (Finite (7 / 2))\<rparr>],
              inv_is_cancellation = False\<rparr>\<rparr>]"
    by simp
  from a a' b ne c d d' e two_invoice_frame_sel(2) f show ?thesis
    by (intro conjI)
qed

text \<open>
  The frame without the \<open>StockCode\<close> column has one invoice group, and no operation is
  produced for it: \<open>r["StockCode"]\<close> raises \<open>KeyError\<close>.
\<close>

theorem customer_upsert_ops_no_stock_code:
  "''InvoiceNo'' \<in> set (columns nostock_frame) \<and>
   ''StockCode'' \<notin> set (columns nostock_frame) \<and>
   clean nostock_frame = Some nostock_frame \<and>
   groupby nostock_frame = Inr [nostock_frame] \<and>
   customer_upsert_ops example_lib nostock_frame = Inl KeyError"
  by (simp add: nostock_frame_sel nostock_clean nostock_groupby customer_upsert_ops_def
      customer_op_def)

section \<open>The transaction-centric document\<close>

text \<open>
  Claim C1, as amended. For a group with at least one row that has the columns
  \<open>InvoiceNo\<close> and \<open>StockCode\<close>, \<open>build_txn_doc\<close> returns a document that has one line
  item for each row, in the order of the rows, each made from the fields of its row, and
  whose invoice number, invoice date, customer id and country are those of the first row.
  (Without the \<open>StockCode\<close> column the builder raises \<open>KeyError\<close>, see below.)
\<close>

theorem build_txn_doc_lines:
  "rows g \<noteq> [] \<Longrightarrow> ''InvoiceNo'' \<in> set (columns g) \<Longrightarrow> ''StockCode'' \<in> set (columns g) \<Longrightarrow>
   \<exists>d. build_txn_doc L g = Inr d \<and>
       length (txn_items d) = length (rows g) \<and>
       (\<forall>i < length (rows g).
          stock_code (txn_items d ! i) = py_str L ((rows g ! i) ''StockCode'') \<and>
          quantity (txn_items d ! i) = safe_int (row_get g (rows g ! i) ''Quantity'') \<and>
          unit_price (txn_items d ! i) = safe_float (row_get g (rows g ! i) ''UnitPrice'') \<and>
          description (txn_items d ! i) =
            (if isna (row_get g (rows g ! i) ''Description'') then None
             else Some (py_str L (row_get g (rows g ! i) ''Description'')))) \<and>
       txn_id d = py_str L (hd (rows g) ''InvoiceNo'') \<and>
       txn_invoice_date d = parse_invoice_date L (row_get g (hd (rows g)) ''InvoiceDate'') \<and>
       txn_customer_id d = safe_int (row_get g (hd (rows g)) ''CustomerID'') \<and>
       txn_customer_country d =
         (if ''Country'' \<in> set (columns g) then Some (py_str L (hd (rows g) ''Country'')) else None) \<and>
       txn_is_cancellation d = is_cancellation (py_str L (hd (rows g) ''InvoiceNo''))"
proof -
  assume p: "rows g \<noteq> []" "''InvoiceNo'' \<in> set (columns g)" "''StockCode'' \<in> set (columns g)"
  from p(1) obtain first rest where r: "rows g = first # rest"
    by (cases "rows g") auto
  have h: "hd (rows g) = first"
    by (simp add: r)
  define d where "d =
    \<lparr>txn_id = py_str L (first ''InvoiceNo''),
     txn_invoice_date = parse_invoice_date L (row_get g first ''InvoiceDate''),
     txn_customer_id = safe_int (row_get g first ''CustomerID''),
     txn_customer_country = country_of L g first,
     txn_items = map (txn_item L g) (rows g),
     txn_is_cancellation = is_cancellation (py_str L (first ''InvoiceNo''))\<rparr>"
  have b: "build_txn_doc L g = Inr d"
    using p(2,3) by (simp add: build_txn_doc_def row_item_def r d_def)
  have n: "length (txn_items d) = length (rows g)"
    by (simp add: d_def)
  have items: "\<forall>i < length (rows g).
      stock_code (txn_items d ! i) = py_str L ((rows g ! i) ''StockCode'') \<and>
      quantity (txn_items d ! i) = safe_int (row_get g (rows g ! i) ''Quantity'') \<and>
      unit_price (txn_items d ! i) = safe_float (row_get g (rows g ! i) ''UnitPrice'') \<and>
      description (txn_items d ! i) =
        (if isna (row_get g (rows g ! i) ''Description'') then None
         else Some (py_str L (row_get g (rows g ! i) ''Description'')))"
    by (simp add: d_def txn_item_def)
  have heads: "txn_id d = py_str L (hd (rows g) ''InvoiceNo'')"
    "txn_invoice_date d = parse_invoice_date L (row_get g (hd (rows g)) ''InvoiceDate'')"
    "txn_customer_id d = safe_int (row_get g (hd (rows g)) ''CustomerID'')"
    "txn_customer_country d =
       (if ''Country'' \<in> set (columns g) then Some (py_str L (hd (rows g) ''Country'')) else None)"
    "txn_is_cancellation d = is_cancellation (py_str L (hd (rows g) ''InvoiceNo''))"
    by (simp_all add: d_def h country_of_def row_get_def)
  from b n items heads show ?thesis
    by blast
qed

theorem build_txn_doc_lines_witness:
  "rows two_row_frame = [example_row, second_row] \<and>
   ''InvoiceNo'' \<in> set (columns two_row_frame) \<and> ''StockCode'' \<in> set (columns two_row_frame) \<and>
   second_row ''CustomerID'' = CFloat (Finite 13047) \<and>
   second_row ''Country'' = CStr ''France'' \<and>
   second_row ''InvoiceDate'' = CStr ''02-12-2010 09:00'' \<and>
   (\<exists>d. build_txn_doc example_lib two_row_frame = Inr d \<and>
        length (txn_items d) = 2 \<and>
        txn_items d ! 0 =
          \<lparr>stock_code = ''85123A'', quantity = Some 6, unit_price = Some (Finite (5 / 2)),
           description = Some ''HOLDER''\<rparr> \<and>
        txn_items d ! 1 =
          \<lparr>stock_code = ''71053'', quantity = Some 6, unit_price = Some (Finite (7 / 2)),
           description = Some ''LANTERN''\<rparr> \<and>
        txn_id d = ''536365'' \<and>
        txn_invoice_date d = example_date \<and>
        txn_customer_id d = Some 17850 \<and>
        txn_customer_country d = Some ''United Kingdom'' \<and>
        txn_is_cancellation d = False)"
proof -
  have a: "rows two_row_frame \<noteq> []" "''InvoiceNo'' \<in> set (columns two_row_frame)"
    "''StockCode'' \<in> set (columns two_row_frame)"
    by (simp_all add: two_row_frame_sel example_columns_set)
  from build_txn_doc_lines [of two_row_frame example_lib, OF a]
  obtain d where d: "build_txn_doc example_lib two_row_frame = Inr d"
    and n: "length (txn_items d) = length (rows two_row_frame)"
    and items: "\<forall>i < length (rows two_row_frame).
        stock_code (txn_items d ! i) = py_str example_lib ((rows two_row_frame ! i) ''StockCode'') \<and>
        quantity (txn_items d ! i) = safe_int (row_get two_row_frame (rows two_row_frame ! i) ''Quantity'') \<and>
        unit_price (txn_items d ! i) =
          safe_float (row_get two_row_frame (rows two_row_frame ! i) ''UnitPrice'') \<and>
        description (txn_items d ! i) =
          (if isna (row_get two_row_frame (rows two_row_frame ! i) ''Description'') then None
           else Some (py_str example_lib (row_get two_row_frame (rows two_row_frame ! i) ''Description'')))"
    and heads: "txn_id d = py_str example_lib (hd (rows two_row_frame) ''InvoiceNo'')"
      "txn_invoice_date d =
         parse_invoice_date example_lib (row_get two_row_frame (hd (rows two_row_frame)) ''InvoiceDate'')"
      "txn_customer_id d = safe_int (row_get two_row_frame (hd (rows two_row_frame)) ''CustomerID'')"
      "txn_customer_country d =
         (if ''Country'' \<in> set (columns two_row_frame)
          then Some (py_str example_lib (hd (rows two_row_frame) ''Country'')) else None)"
      "txn_is_cancellation d = is_cancellation (py_str example_lib (hd (rows two_row_frame) ''InvoiceNo''))"
    by blast
  have l: "length (txn_items d) = 2"
    using n by (simp add: two_row_frame_sel)
  have i0: "(0::nat) < length (rows two_row_frame)" and i1: "(1::nat) < length (rows two_row_frame)"
    by (simp_all add: two_row_frame_sel)
  from items [rule_format, OF i0]
  have x0: "stock_code (txn_items d ! 0) = ''85123A''" "quantity (txn_items d ! 0) = Some 6"
    "unit_price (txn_items d ! 0) = Some (Finite (5 / 2))"
    "description (txn_items d ! 0) = Some ''HOLDER''"
    by (simp_all add: two_row_frame_sel row_get_def example_columns_set example_row_cells py_str_def
        isna_def safe_int_CInt_6 safe_float_CFloat)
  from items [rule_format, OF i1]
  have x1: "stock_code (txn_items d ! 1) = ''71053''" "quantity (txn_items d ! 1) = Some 6"
    "unit_price (txn_items d ! 1) = Some (Finite (7 / 2))"
    "description (txn_items d ! 1) = Some ''LANTERN''"
    by (simp_all add: two_row_frame_sel row_get_def example_columns_set second_row_get py_str_def
        isna_def safe_int_CInt_6 safe_float_CFloat)
  from x0 have y0: "txn_items d ! 0 =
      \<lparr>stock_code = ''85123A'', quantity = Some 6, unit_price = Some (Finite (5 / 2)),
       description = Some ''HOLDER''\<rparr>"
    by (cases "txn_items d ! 0") simp
  from x1 have y1: "txn_items d ! 1 =
      \<lparr>stock_code = ''71053'', quantity = Some 6, unit_price = Some (Finite (7 / 2)),
       description = Some ''LANTERN''\<rparr>"
    by (cases "txn_items d ! 1") simp
  from heads have h: "txn_id d = ''536365''" "txn_invoice_date d = example_date"
    "txn_customer_id d = Some 17850" "txn_customer_country d = Some ''United Kingdom''"
    "txn_is_cancellation d = False"
    by (simp_all add: two_row_frame_sel row_get_def example_columns_set example_row_cells py_str_def
        safe_int_CFloat_17850 example_parse_date is_cancellation_def)
  from d l y0 y1 h have b: "\<exists>d. build_txn_doc example_lib two_row_frame = Inr d \<and>
        length (txn_items d) = 2 \<and>
        txn_items d ! 0 =
          \<lparr>stock_code = ''85123A'', quantity = Some 6, unit_price = Some (Finite (5 / 2)),
           description = Some ''HOLDER''\<rparr> \<and>
        txn_items d ! 1 =
          \<lparr>stock_code = ''71053'', quantity = Some 6, unit_price = Some (Finite (7 / 2)),
           description = Some ''LANTERN''\<rparr> \<and>
        txn_id d = ''536365'' \<and>
        txn_invoice_date d = example_date \<and>
        txn_customer_id d = Some 17850 \<and>
        txn_customer_country d = Some ''United Kingdom'' \<and>
        txn_is_cancellation d = False"
    by blast
  from two_row_frame_sel(2) a(2,3) second_row_get(7,8,5) b show ?thesis
    by (intro conjI)
qed

text \<open>
  A group with a row and no \<open>StockCode\<close> column: the cleaning of the pass keeps it (it only
  looks at the needed columns the frame has), it is the one group of its frame, and the
  builder raises \<open>KeyError\<close> on it, so that no document is returned.
\<close>

theorem build_txn_doc_no_stock_code:
  "rows nostock_frame = [example_row] \<and>
   ''InvoiceNo'' \<in> set (columns nostock_frame) \<and>
   ''StockCode'' \<notin> set (columns nostock_frame) \<and>
   clean nostock_frame = Some nostock_frame \<and>
   groupby nostock_frame = Inr [nostock_frame] \<and>
   build_txn_doc example_lib nostock_frame = Inl KeyError"
  by (simp add: nostock_frame_sel nostock_clean nostock_groupby nostock_build)

section \<open>Numeric coercion\<close>

lemma bitlen_eq: "2 ^ k \<le> n \<Longrightarrow> n < 2 ^ Suc k \<Longrightarrow> bitlen n = Suc k"
proof (induction k arbitrary: n)
  case 0
  then have "n = 1" by simp
  then show ?case by (simp add: bitlen.simps)
next
  case (Suc k)
  then have "2 ^ k \<le> n div 2" "n div 2 < 2 ^ Suc k" "n \<noteq> 0"
    by auto
  with Suc.IH [of "n div 2"] show ?case
    by (subst bitlen.simps) simp
qed

lemma float_of_string_abc: "float_of_string ''abc'' = Inl ValueError"
  by (simp add: float_of_string_def float_strip_def is_float_space_def is_digit_def split_sign_def
      ascii_lower_def parse_decimal_def span_digits_def)

lemma parse_6_7: "float_of_string ''6.7'' = Inr (signed_float False (binary64_mag 67 10))"
  by (simp add: float_of_string_def float_strip_def is_float_space_def is_digit_def split_sign_def
      ascii_lower_def parse_decimal_def span_digits_def parse_exponent_def nat_of_digits_def
      digit_val_def)

lemma binary64_6_7: "binary64_mag 67 10 = Some (7543529375845581 / 1125899906842624)"
proof -
  have "ilog2 67 10 = 2"
    by (simp add: ilog2_def scale2_def bitlen.simps)
  then show ?thesis
    by (simp add: binary64_mag_def scale2_def round_half_even_def pow2_def)
qed

lemma float_of_string_6_7:
  "float_of_string ''6.7'' = Inr (Finite (7543529375845581 / 1125899906842624))"
  by (simp add: parse_6_7 binary64_6_7 signed_float_def)

lemma trunc_6_7: "trunc (7543529375845581 / 1125899906842624) = 6"
  by (simp add: trunc_def floor_eq_iff)

lemma parse_1e400: "float_of_string ''1e400'' = Inr (signed_float False (binary64_mag (10 ^ 400) 1))"
  by (simp add: float_of_string_def float_strip_def is_float_space_def is_digit_def split_sign_def
      ascii_lower_def parse_decimal_def span_digits_def parse_exponent_def nat_of_digits_def
      digit_val_def)

lemma bitlen_1: "bitlen 1 = 1" "bitlen (Suc 0) = 1"
  by (simp_all add: bitlen.simps)

lemma pow2_split: "j \<le> k \<Longrightarrow> (2::'a::comm_semiring_1) ^ k = 2 ^ j * 2 ^ (k - j)"
  by (simp add: power_add [symmetric])

text \<open>An integer of more than 1024 bits is beyond the largest binary64 number.\<close>

lemma binary64_mag_huge:
  assumes lo: "2 ^ k \<le> n" and hi: "n < 2 ^ Suc k" and k: "1024 \<le> k"
  shows "binary64_mag n 1 = None"
proof -
  have bl: "bitlen n = Suc k"
    using lo hi by (rule bitlen_eq)
  have il: "ilog2 n 1 = int k"
    using lo by (simp add: ilog2_def bl bitlen_1 scale2_def)
  have e: "max (ilog2 n 1 - 52) (- 1074) = int (k - 52)"
    using k il by simp
  have sc: "scale2 n 1 (int (k - 52)) = (n, 2 ^ (k - 52))"
    by (simp add: scale2_def)
  have j: "(52::nat) \<le> k"
    using k by simp
  have "(2::nat) ^ 52 * 2 ^ (k - 52) \<le> n"
    using lo by (simp only: pow2_split [OF j, symmetric])
  then have "(2::nat) ^ 52 \<le> n div 2 ^ (k - 52)"
    by (simp only: less_eq_div_iff_mult_less_eq zero_less_power zero_less_numeral)
  moreover have "n div 2 ^ (k - 52) \<le> round_half_even n (2 ^ (k - 52))"
    by (simp add: round_half_even_def Let_def)
  ultimately have "(2::nat) ^ 52 \<le> round_half_even n (2 ^ (k - 52))"
    by (rule order_trans)
  then have "rat_of_nat (2 ^ 52) \<le> rat_of_nat (round_half_even n (2 ^ (k - 52)))"
    by (rule of_nat_mono)
  then have m: "(2::rat) ^ 52 \<le> rat_of_nat (round_half_even n (2 ^ (k - 52)))"
    by simp
  have "(2::rat) ^ 1024 \<le> 2 ^ k"
    using k by (intro power_increasing) simp_all
  also have "(2::rat) ^ k = 2 ^ 52 * 2 ^ (k - 52)"
    by (rule pow2_split [OF j])
  also have "\<dots> \<le> rat_of_nat (round_half_even n (2 ^ (k - 52))) * 2 ^ (k - 52)"
    using m by (rule mult_right_mono) simp
  finally have v: "(2::rat) ^ 1024 \<le> rat_of_nat (round_half_even n (2 ^ (k - 52))) * pow2 (int (k - 52))"
    by (simp add: pow2_def)
  have "(0::nat) < 2 ^ k"
    by simp
  with lo have "n \<noteq> 0"
    by linarith
  then show ?thesis
    using v by (simp only: binary64_mag_def e sc Let_def prod.case if_False if_True)
qed

lemma float_of_string_1e400: "float_of_string ''1e400'' = Inr PosInf"
proof -
  have "binary64_mag (10 ^ 400) 1 = None"
    by (rule binary64_mag_huge [of 1328]) simp_all
  then show ?thesis
    by (simp only: parse_1e400 signed_float_def option.case if_False)
qed

lemma build_txn_doc_items:
  "build_txn_doc L g = Inr d \<Longrightarrow> txn_items d = map (txn_item L g) (rows g)"
  by (cases "rows g") (auto simp: build_txn_doc_def split: sum.splits if_splits)

text \<open>
  Claim C8. \<open>safe_float\<close> and \<open>safe_int\<close> return \<open>None\<close> whenever the conversion raises:
  when \<open>float(x)\<close> raises, both do, and when \<open>int\<close> of the float raises, \<open>safe_int\<close> does.
  \<open>float("abc")\<close> raises \<open>ValueError\<close>, and a row whose quantity is the string \<open>abc\<close>
  gets a line item with quantity \<open>None\<close> in the document that \<open>build_txn_doc\<close> returns.
\<close>

theorem safe_conversions_return_none:
  "(\<forall>e. py_float x = Inl e \<longrightarrow> safe_float x = None \<and> safe_int x = None) \<and>
   (\<forall>f e. py_float x = Inr f \<longrightarrow> py_int_of_float f = Inl e \<longrightarrow> safe_int x = None) \<and>
   safe_float (CStr ''abc'') = None \<and> safe_int (CStr ''abc'') = None \<and>
   (rows g \<noteq> [] \<longrightarrow> ''InvoiceNo'' \<in> set (columns g) \<longrightarrow> ''StockCode'' \<in> set (columns g) \<longrightarrow>
    ''Quantity'' \<in> set (columns g) \<longrightarrow>
      (\<exists>d. build_txn_doc L g = Inr d \<and> length (txn_items d) = length (rows g) \<and>
           (\<forall>i < length (rows g). (rows g ! i) ''Quantity'' = CStr ''abc'' \<longrightarrow>
              quantity (txn_items d ! i) = None)))"
proof -
  have a: "\<forall>e. py_float x = Inl e \<longrightarrow> safe_float x = None \<and> safe_int x = None"
    by (simp add: safe_float_def safe_int_def)
  have b: "\<forall>f e. py_float x = Inr f \<longrightarrow> py_int_of_float f = Inl e \<longrightarrow> safe_int x = None"
    by (simp add: safe_int_def)
  have c: "safe_float (CStr ''abc'') = None" "safe_int (CStr ''abc'') = None"
    by (simp_all add: safe_float_def safe_int_def py_float_def float_of_string_abc)
  have d: "\<exists>d. build_txn_doc L g = Inr d \<and> length (txn_items d) = length (rows g) \<and>
           (\<forall>i < length (rows g). (rows g ! i) ''Quantity'' = CStr ''abc'' \<longrightarrow>
              quantity (txn_items d ! i) = None)"
    if p: "rows g \<noteq> []" "''InvoiceNo'' \<in> set (columns g)" "''StockCode'' \<in> set (columns g)"
      and q: "''Quantity'' \<in> set (columns g)"
  proof -
    from build_txn_doc_Inr [OF p] obtain d where d: "build_txn_doc L g = Inr d"
      by blast
    from build_txn_doc_items [OF d] q c(2)
    have "length (txn_items d) = length (rows g)"
      "\<forall>i < length (rows g). (rows g ! i) ''Quantity'' = CStr ''abc'' \<longrightarrow>
          quantity (txn_items d ! i) = None"
      by (simp_all add: txn_item_def row_get_def)
    with d show ?thesis by blast
  qed
  from a b c d show ?thesis by blast
qed

theorem safe_conversions_return_none_witness:
  "py_float (CStr ''abc'') = Inl ValueError \<and>
   py_float (CFloat NaNf) = Inr NaNf \<and> py_int_of_float NaNf = Inl ValueError \<and>
   safe_int (CFloat NaNf) = None \<and>
   rows abc_frame \<noteq> [] \<and> ''InvoiceNo'' \<in> set (columns abc_frame) \<and>
   ''StockCode'' \<in> set (columns abc_frame) \<and> ''Quantity'' \<in> set (columns abc_frame) \<and>
   (rows abc_frame ! 0) ''Quantity'' = CStr ''abc'' \<and>
   (\<exists>d. build_txn_doc example_lib abc_frame = Inr d \<and> length (txn_items d) = 1 \<and>
        quantity (txn_items d ! 0) = None)"
proof -
  note T = safe_conversions_return_none
  have a: "py_float (CStr ''abc'') = Inl ValueError"
    by (simp add: py_float_def float_of_string_abc)
  have b: "py_float (CFloat NaNf) = Inr NaNf" "py_int_of_float NaNf = Inl ValueError"
    by (simp_all add: py_float_def py_int_of_float_def)
  have c: "safe_int (CFloat NaNf) = None"
    by (rule T [of "CFloat NaNf", THEN conjunct2, THEN conjunct1, rule_format, OF b])
  have f: "rows abc_frame \<noteq> []" "''InvoiceNo'' \<in> set (columns abc_frame)"
    "''StockCode'' \<in> set (columns abc_frame)" "''Quantity'' \<in> set (columns abc_frame)"
    by (simp_all add: abc_frame_def example_columns_def)
  have q: "(rows abc_frame ! 0) ''Quantity'' = CStr ''abc''" and n: "length (rows abc_frame) = 1"
    by (simp_all add: abc_frame_def)
  from T [of _ abc_frame example_lib, THEN conjunct2, THEN conjunct2, THEN conjunct2,
      THEN conjunct2, rule_format, OF f]
  obtain d where d: "build_txn_doc example_lib abc_frame = Inr d"
    "length (txn_items d) = length (rows abc_frame)"
    "\<forall>i < length (rows abc_frame). (rows abc_frame ! i) ''Quantity'' = CStr ''abc'' \<longrightarrow>
        quantity (txn_items d ! i) = None"
    by blast
  from d(3) q n have "quantity (txn_items d ! 0) = None"
    by simp
  with d(1,2) n have g: "\<exists>d. build_txn_doc example_lib abc_frame = Inr d \<and>
      length (txn_items d) = 1 \<and> quantity (txn_items d ! 0) = None"
    by auto
  from a b c f q g show ?thesis
    by (intro conjI)
qed

text \<open>
  Claim C10, as amended. \<open>safe_int\<close> converts through \<open>float\<close>: for every input that
  \<open>float\<close> converts to a finite value, it returns that value truncated toward zero (6 for
  the string \<open>6.7\<close>). It returns \<open>None\<close> exactly when \<open>float\<close> rejects the input or
  converts it to an infinity or to NaN, for which \<open>int\<close> raises.
\<close>

theorem safe_int_truncates:
  "(safe_int x = None) =
     (case py_float x of Inl e \<Rightarrow> True | Inr f \<Rightarrow> f = PosInf \<or> f = NegInf \<or> f = NaNf) \<and>
   (\<forall>q. py_float x = Inr (Finite q) \<longrightarrow>
      safe_int x = Some (trunc q) \<and>
      \<bar>rat_of_int (trunc q)\<bar> \<le> \<bar>q\<bar> \<and> \<bar>q\<bar> < \<bar>rat_of_int (trunc q)\<bar> + 1 \<and>
      (0 \<le> q \<longrightarrow> 0 \<le> trunc q) \<and> (q \<le> 0 \<longrightarrow> trunc q \<le> 0))"
proof -
  have a: "(safe_int x = None) =
     (case py_float x of Inl e \<Rightarrow> True | Inr f \<Rightarrow> f = PosInf \<or> f = NegInf \<or> f = NaNf)"
    by (simp add: safe_int_def py_int_of_float_def split: sum.splits pyfloat.splits)
  have b: "safe_int x = Some (trunc q)" if "py_float x = Inr (Finite q)" for q
    using that by (simp add: safe_int_def py_int_of_float_def)
  have c: "\<bar>rat_of_int (trunc q)\<bar> \<le> \<bar>q\<bar> \<and> \<bar>q\<bar> < \<bar>rat_of_int (trunc q)\<bar> + 1 \<and>
      (0 \<le> q \<longrightarrow> 0 \<le> trunc q) \<and> (q \<le> 0 \<longrightarrow> trunc q \<le> 0)" for q
  proof (cases "q < 0")
    case True
    then have "trunc q = - \<lfloor>- q\<rfloor>" "0 \<le> \<lfloor>- q\<rfloor>"
      by (simp_all add: trunc_def)
    moreover have "rat_of_int \<lfloor>- q\<rfloor> \<le> - q" "- q < rat_of_int \<lfloor>- q\<rfloor> + 1"
      by linarith+
    ultimately show ?thesis using True by simp
  next
    case False
    then have "trunc q = \<lfloor>q\<rfloor>" "0 \<le> \<lfloor>q\<rfloor>"
      by (simp_all add: trunc_def)
    moreover have "rat_of_int \<lfloor>q\<rfloor> \<le> q" "q < rat_of_int \<lfloor>q\<rfloor> + 1"
      by linarith+
    ultimately show ?thesis using False by (auto simp: trunc_def)
  qed
  from a b c show ?thesis by blast
qed

theorem safe_int_truncates_witness:
  "py_float (CStr ''6.7'') = Inr (Finite (7543529375845581 / 1125899906842624)) \<and>
   safe_int (CStr ''6.7'') = Some 6"
proof -
  have a: "py_float (CStr ''6.7'') = Inr (Finite (7543529375845581 / 1125899906842624))"
    by (simp add: py_float_def float_of_string_6_7)
  from safe_int_truncates [of "CStr ''6.7''", THEN conjunct2, rule_format, OF a, THEN conjunct1]
  have "safe_int (CStr ''6.7'') = Some 6"
    by (simp only: trunc_6_7)
  with a show ?thesis
    by (intro conjI)
qed

text \<open>
  The claim as stated, that only inputs rejected by \<open>float\<close> give \<open>None\<close>, fails for the
  decimal literal \<open>1e400\<close>: \<open>float\<close> converts it, to infinity, and \<open>safe_int\<close> returns \<open>None\<close>.
\<close>

theorem safe_int_none_counterexample:
  "py_float (CStr ''1e400'') = Inr PosInf \<and> safe_int (CStr ''1e400'') = None"
  by (simp add: safe_int_def py_float_def float_of_string_1e400 py_int_of_float_def)

section \<open>Dates\<close>

lemma try_formats_order:
  "try_formats L txt formats =
     (case strptime L txt ''%d-%m-%Y %H:%M'' of
        Some d \<Rightarrow> Some d
      | None \<Rightarrow>
          (case strptime L txt ''%d/%m/%Y %H:%M'' of
             Some d \<Rightarrow> Some d
           | None \<Rightarrow> strptime L txt ''%Y-%m-%d %H:%M:%S''))"
  by (simp add: formats_def split: option.splits)

text \<open>
  Claim C7. \<open>parse_invoice_date\<close> returns \<open>None\<close> for a missing value; otherwise it strips
  the text, tries the three formats in their order and returns the first date that parses,
  and after them asks pandas, day first; it never raises. But when every attempt fails it
  does not return \<open>None\<close>: pandas is asked to coerce (\<open>errors="coerce"\<close>), so it answers
  \<open>NaT\<close> instead of raising, the \<open>except\<close> branch that returns \<open>None\<close> is not taken, and
  the function returns \<open>NaT\<close>, for every text that nothing parses and also for the empty
  one.
\<close>

theorem parse_invoice_date_all_fail:
  "parse_invoice_date L x =
     (if isna x then DNone
      else case strptime L (strip (py_str L x)) ''%d-%m-%Y %H:%M'' of
             Some d \<Rightarrow> DTime d
           | None \<Rightarrow>
               (case strptime L (strip (py_str L x)) ''%d/%m/%Y %H:%M'' of
                  Some d \<Rightarrow> DTime d
                | None \<Rightarrow>
                    (case strptime L (strip (py_str L x)) ''%Y-%m-%d %H:%M:%S'' of
                       Some d \<Rightarrow> DTime d
                     | None \<Rightarrow>
                         (case to_datetime L (strip (py_str L x)) of
                            PdRaise \<Rightarrow> DNone
                          | PdNaT \<Rightarrow> DNaT
                          | PdTimestamp d \<Rightarrow> DTime d)))) \<and>
   parse_invoice_date L CNone = DNone \<and>
   parse_invoice_date L (CFloat NaNf) = DNone \<and>
   try_formats (failing_lib L) txt formats = None \<and>
   to_datetime (failing_lib L) txt = PdNaT \<and>
   parse_invoice_date (failing_lib L) (CStr s) = DNaT \<and>
   parse_invoice_date (failing_lib L) (CStr '''') = DNaT \<and>
   DNaT \<noteq> DNone"
  by (simp add: parse_invoice_date_def isna_def failing_lib_def try_formats_order to_pydatetime_def
      split: option.splits pd_result.splits)

section \<open>Bulk write errors\<close>

lemma process_frame_built:
  assumes "clean df = Some df2" "groupby df2 = Inr gs"
    "collect (map (build_txn_doc L) gs) = Inr docs" "customer_upsert_ops L df2 = Inr ops"
    "insert_many rt (invoices_txn s) docs = (t, errs1)"
    "bulk_write rc (customers_centric s) ops = (c, errs2)"
  shows "process_frame L rt rc s df =
     (case reraise errs1 of
        Some e \<Rightarrow> (s\<lparr>invoices_txn := t\<rparr>, Some e)
      | None \<Rightarrow> (s\<lparr>invoices_txn := t, customers_centric := c\<rparr>, reraise errs2))"
  using assms(5,6)
  by (cases "docs = []"; cases "ops = []")
    (auto simp: process_frame_def assms(1-4) Let_def split: option.splits)

text \<open>
  Claim C4. Once the documents and operations of a pass are built, the pass issues the
  insert and looks at its write errors. If all of them are duplicate-key conflicts (code
  11000) it goes on to the customer write, and if all errors of that write are 11000 too,
  the pass returns normally with both writes done. If the insert has an error of another
  code, \<open>BulkWriteError\<close> is raised to the caller and the customer write is not issued; if
  the customer write has one, \<open>BulkWriteError\<close> is raised after both writes.
\<close>

theorem process_frame_duplicates_tolerated:
  assumes "clean df = Some df2" "groupby df2 = Inr gs"
    "collect (map (build_txn_doc L) gs) = Inr docs" "customer_upsert_ops L df2 = Inr ops"
    "insert_many rt (invoices_txn s) docs = (t, errs1)"
    "bulk_write rc (customers_centric s) ops = (c, errs2)"
  shows "((\<forall>e \<in> set errs1. e = 11000) \<and> (\<forall>e \<in> set errs2. e = 11000) \<longrightarrow>
            process_frame L rt rc s df = (s\<lparr>invoices_txn := t, customers_centric := c\<rparr>, None)) \<and>
         ((\<exists>e \<in> set errs1. e \<noteq> 11000) \<longrightarrow>
            process_frame L rt rc s df = (s\<lparr>invoices_txn := t\<rparr>, Some (BulkWriteError errs1))) \<and>
         ((\<forall>e \<in> set errs1. e = 11000) \<and> (\<exists>e \<in> set errs2. e \<noteq> 11000) \<longrightarrow>
            process_frame L rt rc s df =
              (s\<lparr>invoices_txn := t, customers_centric := c\<rparr>, Some (BulkWriteError errs2)))"
  by (auto simp: process_frame_built [OF assms] reraise_def list_all_iff)

theorem process_frame_duplicates_tolerated_witness:
  "insert_many no_reject (invoices_txn loaded_db) [example_txn] = (invoices_txn loaded_db, [11000]) \<and>
   process_frame example_lib no_reject no_reject loaded_db example_frame =
     (loaded_db\<lparr>customers_centric :=
        [Some 17850 \<mapsto> \<lparr>country = Some ''United Kingdom'',
                          invoices = Some [example_sub ''536365'', example_sub ''536365'']\<rparr>]\<rparr>, None) \<and>
   insert_many reject_all (invoices_txn loaded_db) [two_row_txn, other_txn] =
     (invoices_txn loaded_db, [11000, 121]) \<and>
   process_frame example_lib reject_all no_reject loaded_db two_invoice_frame =
     (loaded_db, Some (BulkWriteError [11000, 121])) \<and>
   bulk_write reject_all (customers_centric empty_db) [example_op] = (Map.empty, [121]) \<and>
   process_frame example_lib no_reject reject_all empty_db example_frame =
     (empty_db\<lparr>invoices_txn := [''536365'' \<mapsto> example_txn]\<rparr>, Some (BulkWriteError [121]))"
proof -
  have i1: "insert_many no_reject (invoices_txn loaded_db) [example_txn] =
      (invoices_txn loaded_db, [11000])"
    by (simp add: loaded_db_def example_txn_def)
  have b1: "bulk_write no_reject (customers_centric loaded_db) [example_op] =
      ([Some 17850 \<mapsto> \<lparr>country = Some ''United Kingdom'',
                         invoices = Some [example_sub ''536365'', example_sub ''536365'']\<rparr>], [])"
    by (simp add: loaded_db_def example_op_def no_reject_def update_one_upsert_def push_def)
  have e1: "(\<forall>e \<in> set [11000::nat]. e = 11000) \<and> (\<forall>e \<in> set ([]::nat list). e = 11000)"
    by simp
  from process_frame_duplicates_tolerated [OF example_clean example_groupby example_docs
      example_ops i1 b1, THEN conjunct1, rule_format, OF e1]
  have p1: "process_frame example_lib no_reject no_reject loaded_db example_frame =
     (loaded_db\<lparr>customers_centric :=
        [Some 17850 \<mapsto> \<lparr>country = Some ''United Kingdom'',
                          invoices = Some [example_sub ''536365'', example_sub ''536365'']\<rparr>]\<rparr>, None)"
    by simp
  have i2: "insert_many reject_all (invoices_txn loaded_db) [two_row_txn, other_txn] =
      (invoices_txn loaded_db, [11000, 121])"
    by (simp add: loaded_db_def two_row_txn_def other_txn_def reject_all_def)
  obtain c2 errs2 where b2: "bulk_write no_reject (customers_centric loaded_db)
      [two_row_op, other_op] = (c2, errs2)"
    by (cases "bulk_write no_reject (customers_centric loaded_db) [two_row_op, other_op]")
  have e2: "\<exists>e \<in> set [11000::nat, 121]. e \<noteq> 11000"
    by simp
  from process_frame_duplicates_tolerated [OF two_invoice_clean two_invoice_groupby
      two_invoice_docs two_invoice_ops i2 b2, THEN conjunct2, THEN conjunct1, rule_format, OF e2]
  have p2: "process_frame example_lib reject_all no_reject loaded_db two_invoice_frame =
     (loaded_db, Some (BulkWriteError [11000, 121]))"
    by simp
  have i3: "insert_many no_reject (invoices_txn empty_db) [example_txn] =
      ([''536365'' \<mapsto> example_txn], [])"
    by (simp add: empty_db_def example_txn_def no_reject_def)
  have b3: "bulk_write reject_all (customers_centric empty_db) [example_op] = (Map.empty, [121])"
    by (simp add: empty_db_def reject_all_def)
  have b3': "bulk_write reject_all (customers_centric empty_db) [example_op] =
      (customers_centric empty_db, [121])"
    by (simp add: empty_db_def reject_all_def)
  have e3: "(\<forall>e \<in> set ([]::nat list). e = 11000) \<and> (\<exists>e \<in> set [121::nat]. e \<noteq> 11000)"
    by simp
  from process_frame_duplicates_tolerated [OF example_clean example_groupby example_docs
      example_ops i3 b3', THEN conjunct2, THEN conjunct2, rule_format, OF e3]
  have p3: "process_frame example_lib no_reject reject_all empty_db example_frame =
     (empty_db\<lparr>invoices_txn := [''536365'' \<mapsto> example_txn]\<rparr>, Some (BulkWriteError [121]))"
    by simp
  from i1 p1 i2 p2 b3 p3 show ?thesis
    by (intro conjI)
qed

section \<open>Cleaning\<close>

lemma group_key_Some: "\<not> isna x \<Longrightarrow> \<exists>k. group_key x = Some k"
  by (cases x; simp add: isna_def group_key_def split: pyfloat.splits)

lemma clean_no_customer: "''CustomerID'' \<notin> set (columns df) \<Longrightarrow> clean df = None"
  by (simp add: clean_def dropna_def)

lemma clean_rows:
  "''CustomerID'' \<in> set (columns df) \<Longrightarrow>
   clean df =
     Some (df\<lparr>rows :=
       filter (\<lambda>r. (''InvoiceNo'' \<in> set (columns df) \<longrightarrow> \<not> isna (r ''InvoiceNo'')) \<and>
                    (''StockCode'' \<in> set (columns df) \<longrightarrow> \<not> isna (r ''StockCode'')) \<and>
                    (''Quantity'' \<in> set (columns df) \<longrightarrow> \<not> isna (r ''Quantity'')) \<and>
                    \<not> isna (r ''CustomerID'')) (rows df)\<rparr>)"
  by (auto simp: clean_def dropna_def needed_def intro!: filter_cong)

lemma clean_idem: "clean df = Some df2 \<Longrightarrow> clean df2 = Some df2"
proof -
  assume a: "clean df = Some df2"
  then have c: "''CustomerID'' \<in> set (columns df)"
    by (auto simp: clean_def Let_def dropna_def split: if_splits)
  from a clean_rows [OF c] have d: "df2 = df\<lparr>rows :=
       filter (\<lambda>r. (''InvoiceNo'' \<in> set (columns df) \<longrightarrow> \<not> isna (r ''InvoiceNo'')) \<and>
                    (''StockCode'' \<in> set (columns df) \<longrightarrow> \<not> isna (r ''StockCode'')) \<and>
                    (''Quantity'' \<in> set (columns df) \<longrightarrow> \<not> isna (r ''Quantity'')) \<and>
                    \<not> isna (r ''CustomerID'')) (rows df)\<rparr>"
    by simp
  from c d have c2: "''CustomerID'' \<in> set (columns df2)"
    by simp
  show ?thesis
    by (simp only: clean_rows [OF c2]) (auto simp: d intro!: frame.equality filter_id_conv [THEN iffD2])
qed

lemma groupby_rows:
  "groupby df = Inr gs \<Longrightarrow>
   (\<exists>g \<in> set gs. r \<in> set (rows g)) \<longleftrightarrow> r \<in> set (rows df) \<and> \<not> isna (r ''InvoiceNo'')"
proof -
  assume a: "groupby df = Inr gs"
  then have gs: "gs = map (\<lambda>k. df\<lparr>rows := filter (\<lambda>r. group_key (r ''InvoiceNo'') = Some k) (rows df)\<rparr>)
      (group_keys df)"
    by (auto simp: groupby_def split: if_splits)
  have n: "group_key x = Some k \<Longrightarrow> \<not> isna x" for x k
    by (cases x; auto simp: isna_def group_key_def)
  show ?thesis
    using group_key_Some [of "r ''InvoiceNo''"] n [of "r ''InvoiceNo''"]
    by (auto simp: gs set_group_keys)
qed

text \<open>
  Claim C9, as amended. A pass over a frame without the \<open>CustomerID\<close> column returns
  at once, with nothing built or written. Otherwise the pass keeps the rows that have a customer id and
  no missing value in those of the columns \<open>InvoiceNo\<close>, \<open>StockCode\<close>, \<open>Quantity\<close> that the
  frame has, and goes on with the frame of these rows alone: its result is the result of
  the pass over that frame, and the groups handed to the builders hold the kept rows, and
  only them.
\<close>

theorem process_frame_drops_rows:
  "(''CustomerID'' \<notin> set (columns df) \<longrightarrow>
      clean df = None \<and> process_frame L rt rc s df = (s, None)) \<and>
   (''CustomerID'' \<in> set (columns df) \<longrightarrow>
      (\<exists>df2. clean df = Some df2 \<and> columns df2 = columns df \<and>
         rows df2 =
           filter (\<lambda>r. (''InvoiceNo'' \<in> set (columns df) \<longrightarrow> \<not> isna (r ''InvoiceNo'')) \<and>
                        (''StockCode'' \<in> set (columns df) \<longrightarrow> \<not> isna (r ''StockCode'')) \<and>
                        (''Quantity'' \<in> set (columns df) \<longrightarrow> \<not> isna (r ''Quantity'')) \<and>
                        \<not> isna (r ''CustomerID'')) (rows df) \<and>
         process_frame L rt rc s df = process_frame L rt rc s df2 \<and>
         (\<forall>gs. groupby df2 = Inr gs \<longrightarrow>
            (\<forall>r. (\<exists>g \<in> set gs. r \<in> set (rows g)) \<longleftrightarrow> r \<in> set (rows df2)))))"
proof -
  have a: "clean df = None \<and> process_frame L rt rc s df = (s, None)"
    if "''CustomerID'' \<notin> set (columns df)"
    using clean_no_customer [OF that] by (simp add: process_frame_def)
  have b: "\<exists>df2. clean df = Some df2 \<and> columns df2 = columns df \<and>
         rows df2 =
           filter (\<lambda>r. (''InvoiceNo'' \<in> set (columns df) \<longrightarrow> \<not> isna (r ''InvoiceNo'')) \<and>
                        (''StockCode'' \<in> set (columns df) \<longrightarrow> \<not> isna (r ''StockCode'')) \<and>
                        (''Quantity'' \<in> set (columns df) \<longrightarrow> \<not> isna (r ''Quantity'')) \<and>
                        \<not> isna (r ''CustomerID'')) (rows df) \<and>
         process_frame L rt rc s df = process_frame L rt rc s df2 \<and>
         (\<forall>gs. groupby df2 = Inr gs \<longrightarrow>
            (\<forall>r. (\<exists>g \<in> set gs. r \<in> set (rows g)) \<longleftrightarrow> r \<in> set (rows df2)))"
    if c: "''CustomerID'' \<in> set (columns df)"
  proof -
    define df2 where "df2 = df\<lparr>rows :=
       filter (\<lambda>r. (''InvoiceNo'' \<in> set (columns df) \<longrightarrow> \<not> isna (r ''InvoiceNo'')) \<and>
                    (''StockCode'' \<in> set (columns df) \<longrightarrow> \<not> isna (r ''StockCode'')) \<and>
                    (''Quantity'' \<in> set (columns df) \<longrightarrow> \<not> isna (r ''Quantity'')) \<and>
                    \<not> isna (r ''CustomerID'')) (rows df)\<rparr>"
    have cl: "clean df = Some df2"
      by (simp only: clean_rows [OF c] df2_def)
    have cols: "columns df2 = columns df"
      by (simp add: df2_def)
    have rws: "rows df2 =
           filter (\<lambda>r. (''InvoiceNo'' \<in> set (columns df) \<longrightarrow> \<not> isna (r ''InvoiceNo'')) \<and>
                        (''StockCode'' \<in> set (columns df) \<longrightarrow> \<not> isna (r ''StockCode'')) \<and>
                        (''Quantity'' \<in> set (columns df) \<longrightarrow> \<not> isna (r ''Quantity'')) \<and>
                        \<not> isna (r ''CustomerID'')) (rows df)"
      by (simp add: df2_def)
    have pf: "process_frame L rt rc s df = process_frame L rt rc s df2"
      by (simp add: process_frame_def cl clean_idem [OF cl])
    have grp: "(\<exists>g \<in> set gs. r \<in> set (rows g)) \<longleftrightarrow> r \<in> set (rows df2)"
      if g: "groupby df2 = Inr gs" for gs r
    proof -
      from g have i: "''InvoiceNo'' \<in> set (columns df)"
        by (auto simp: groupby_def cols split: if_splits)
      then have "r \<in> set (rows df2) \<Longrightarrow> \<not> isna (r ''InvoiceNo'')"
        by (simp add: rws)
      with groupby_rows [OF g, of r] show ?thesis
        by blast
    qed
    from cl cols rws pf grp show ?thesis
      by blast
  qed
  from a b show ?thesis
    by blast
qed

theorem process_frame_drops_rows_witness:
  "''CustomerID'' \<notin> set (columns nocust_frame) \<and>
   clean nocust_frame = None \<and>
   process_frame example_lib no_reject no_reject example_db nocust_frame = (example_db, None) \<and>
   ''CustomerID'' \<in> set (columns dirty_frame) \<and>
   rows dirty_frame =
     [example_row(''Quantity'' := CFloat NaNf), example_row,
      second_row(''CustomerID'' := CFloat NaNf), other_row(''StockCode'' := CNone)] \<and>
   clean dirty_frame = Some example_frame \<and>
   rows example_frame = [example_row] \<and>
   process_frame example_lib no_reject no_reject empty_db dirty_frame = (loaded_db, None) \<and>
   groupby example_frame = Inr [example_frame]"
proof -
  have a: "''CustomerID'' \<notin> set (columns nocust_frame)"
    by (simp add: nocust_frame_def)
  note A = process_frame_drops_rows [of nocust_frame example_lib no_reject no_reject example_db,
      THEN conjunct1, rule_format, OF a]
  have b: "''CustomerID'' \<in> set (columns dirty_frame)"
    by (simp add: dirty_frame_sel example_columns_set)
  from process_frame_drops_rows [of dirty_frame example_lib no_reject no_reject empty_db,
      THEN conjunct2, rule_format, OF b]
  obtain df2 where cl: "clean dirty_frame = Some df2"
    and cols: "columns df2 = columns dirty_frame"
    and rws: "rows df2 =
        filter (\<lambda>r. (''InvoiceNo'' \<in> set (columns dirty_frame) \<longrightarrow> \<not> isna (r ''InvoiceNo'')) \<and>
                     (''StockCode'' \<in> set (columns dirty_frame) \<longrightarrow> \<not> isna (r ''StockCode'')) \<and>
                     (''Quantity'' \<in> set (columns dirty_frame) \<longrightarrow> \<not> isna (r ''Quantity'')) \<and>
                     \<not> isna (r ''CustomerID'')) (rows dirty_frame)"
    and pf: "process_frame example_lib no_reject no_reject empty_db dirty_frame =
        process_frame example_lib no_reject no_reject empty_db df2"
    by blast
  from rws have r1: "rows df2 = [example_row]"
    by (simp add: dirty_frame_sel example_columns_set example_row_cells second_row_get
        other_row_get isna_def)
  from cols have c1: "columns df2 = example_columns"
    by (simp add: dirty_frame_sel)
  from r1 c1 have eq: "df2 = example_frame"
    by (cases df2) (simp add: example_frame_def)
  from cl eq have c: "clean dirty_frame = Some example_frame"
    by simp
  from pf eq have d: "process_frame example_lib no_reject no_reject empty_db dirty_frame =
      (loaded_db, None)"
    by (simp add: example_load)
  from a A [THEN conjunct1] A [THEN conjunct2] b dirty_frame_sel(2) c example_columns_mem(3) d
    example_groupby
  show ?thesis
    by (intro conjI)
qed

text \<open>
  A frame without the \<open>Quantity\<close> column: its row has no quantity and is not dropped. The
  pass builds its document and its operation, with the quantity \<open>None\<close>, and writes them.
\<close>

theorem process_frame_keeps_row_without_quantity:
  "''Quantity'' \<notin> set (columns noqty_frame) \<and>
   rows noqty_frame = [example_row] \<and>
   row_get noqty_frame example_row ''Quantity'' = CNone \<and>
   clean noqty_frame = Some noqty_frame \<and>
   groupby noqty_frame = Inr [noqty_frame] \<and>
   process_frame example_lib no_reject no_reject empty_db noqty_frame = (noqty_db, None) \<and>
   invoices_txn noqty_db ''536365'' =
     Some \<lparr>txn_id = ''536365'', txn_invoice_date = DNone, txn_customer_id = Some 17850,
           txn_customer_country = None,
           txn_items = [\<lparr>stock_code = ''85123A'', quantity = None, unit_price = None,
                         description = None\<rparr>],
           txn_is_cancellation = False\<rparr>"
  by (simp add: noqty_frame_sel noqty_clean noqty_groupby noqty_load row_get_def)
    (simp add: noqty_db_def)

section \<open>Running a pass again\<close>














end
